theory Spec2Isabelle
  imports Main "HOL-Library.AList" "HOL-Library.Sublist"
begin

section \<open>JavaScript values as the handlers see them\<close>

text \<open>
  The handlers receive JSON and never check its shape beyond truthiness tests, so request
  bodies and JSONB columns are modelled as JavaScript values. Numbers are the integers
  (the values \<open>partySize\<close> and \<open>duration\<close> carry in this application); strings are
  byte strings, the non-ASCII characters of the message templates being written as their
  UTF-8 bytes. An object is its list of own properties, in insertion order.
\<close>

datatype jsval =
    JUndefined
  | JNull
  | JBool bool
  | JNum int
  | JStr string
  | JArr "jsval list"
  | JObj "(string \<times> jsval) list"

text \<open>What \<open>if (v)\<close>, \<open>!v\<close> and \<open>a || b\<close> test.\<close>

fun truthy :: "jsval \<Rightarrow> bool" where
  "truthy JUndefined = False"
| "truthy JNull = False"
| "truthy (JBool b) = b"
| "truthy (JNum n) = (n \<noteq> 0)"
| "truthy (JStr s) = (s \<noteq> [])"
| "truthy (JArr xs) = True"
| "truthy (JObj kvs) = True"

text \<open>\<open>a || b\<close>: the first operand when it is truthy, the second otherwise.\<close>

definition js_or :: "jsval \<Rightarrow> jsval \<Rightarrow> jsval" where
  "js_or a b = (if truthy a then a else b)"

definition digit_char :: "nat \<Rightarrow> char" where
  "digit_char n = ''0123456789'' ! n"

function show_nat :: "nat \<Rightarrow> string" where
  "show_nat n = (if n < 10 then [digit_char n] else show_nat (n div 10) @ [digit_char (n mod 10)])"
  by pat_completeness auto
termination
  by (relation "measure id") auto

declare show_nat.simps [simp del]

fun join_comma :: "string list \<Rightarrow> string" where
  "join_comma [] = []"
| "join_comma [s] = s"
| "join_comma (s # t # ss) = s @ CHR '','' # join_comma (t # ss)"

text \<open>
  The string conversion applied by a template literal to an interpolated value and by
  \<open>RegExp.test\<close> to its argument, which is also how a filter value reaches the store's
  query string.
\<close>

fun toStr :: "jsval \<Rightarrow> string" where
  "toStr JUndefined = ''undefined''"
| "toStr JNull = ''null''"
| "toStr (JBool b) = (if b then ''true'' else ''false'')"
| "toStr (JNum n) = (if n < 0 then CHR ''-'' # show_nat (nat (- n)) else show_nat (nat n))"
| "toStr (JStr s) = s"
| "toStr (JArr xs) =
     join_comma (map (\<lambda>x. if x = JUndefined \<or> x = JNull then [] else toStr x) xs)"
| "toStr (JObj kvs) = ''[object Object]''"

text \<open>
  Reading a named property \<open>v.k\<close> of a value that is neither \<open>null\<close> nor \<open>undefined\<close>
  (on those two the read throws, which each handler models where it reads). The handlers
  read only named fields, never \<open>length\<close> or an index, so strings and arrays have none.
\<close>

fun getProp :: "jsval \<Rightarrow> string \<Rightarrow> jsval" where
  "getProp (JObj kvs) k = (case map_of kvs k of Some v \<Rightarrow> v | None \<Rightarrow> JUndefined)"
| "getProp v k = JUndefined"

definition nullish :: "jsval \<Rightarrow> bool" where
  "nullish v = (v = JUndefined \<or> v = JNull)"

text \<open>The own enumerable properties that an object spread \<open>...v\<close> copies.\<close>

fun ownProps :: "jsval \<Rightarrow> (string \<times> jsval) list" where
  "ownProps (JObj kvs) = kvs"
| "ownProps (JArr xs) = zip (map show_nat [0..<length xs]) xs"
| "ownProps (JStr s) = zip (map show_nat [0..<length s]) (map (\<lambda>c. JStr [c]) s)"
| "ownProps v = []"

text \<open>
  An object literal that lists the properties \<open>base\<close> and then spreads \<open>v\<close>: a property of
  \<open>v\<close> replaces the listed one of the same name. The names in a property list are distinct;
  were one repeated, every read here takes its first occurrence.
\<close>

definition objectSpread :: "(string \<times> jsval) list \<Rightarrow> jsval \<Rightarrow> (string \<times> jsval) list" where
  "objectSpread base v = foldr (\<lambda>kv acc. AList.update (fst kv) (snd kv) acc) (ownProps v) base"

text \<open>What survives serialisation to JSON: properties whose value is \<open>undefined\<close> are dropped.\<close>

definition jsonProps :: "(string \<times> jsval) list \<Rightarrow> (string \<times> jsval) list" where
  "jsonProps kvs = filter (\<lambda>kv. snd kv \<noteq> JUndefined) kvs"

text \<open>
  A thrown value with its \<open>message\<close> property: an instance of \<open>Error\<close>, or an object that
  is not one (the store client's error object, depending on the client's version).
\<close>

datatype thrown = JsError string | NonError string

fun message_of :: "thrown \<Rightarrow> string" where
  "message_of (JsError m) = m"
| "message_of (NonError m) = m"

record response =
  resp_status :: nat
  resp_body :: jsval

definition json_response :: "(string \<times> jsval) list \<Rightarrow> nat \<Rightarrow> response" where
  "json_response kvs st = \<lparr>resp_status = st, resp_body = JObj (jsonProps kvs)\<rparr>"

section \<open>The persistent store\<close>

text \<open>
  The rows of \<open>schema.sql\<close>, without the columns the store fills in by itself
  (\<open>created_at\<close>, \<open>updated_at\<close>, the message id). Field names carry the table's initial.
\<close>

record booking =
  b_id :: string
  b_user_id :: string
  b_chat_id :: string
  b_call_id :: "string option"
  b_booking_type :: string
  b_status :: string
  b_details :: "(string \<times> jsval) list"
  b_result :: jsval

record message =
  m_chat_id :: string
  m_role :: string
  m_content :: string
  m_metadata :: jsval

record chat =
  c_id :: string
  c_user_id :: string
  c_openai_thread_id :: "string option"

record db =
  bookings :: "booking list"
  messages :: "message list"
  chats :: "chat list"

text \<open>\<open>.single()\<close>: the row when the query returns exactly one, an error otherwise.\<close>

fun single :: "'a list \<Rightarrow> 'a option" where
  "single [r] = Some r"
| "single rs = None"

text \<open>
  What the store answers to each statement of one request besides the rows: the error, if
  any, of the select, of the update and of the insert.
\<close>

record store_faults =
  select_error :: "thrown option"
  update_error :: "thrown option"
  insert_error :: "thrown option"

definition no_faults :: store_faults where
  "no_faults = \<lparr>select_error = None, update_error = None, insert_error = None\<rparr>"

section \<open>Call outcome relay: \<open>POST /api/booking/callback\<close> (part 002)\<close>

record callback_env =
  WEBHOOK_SECRET :: "string option"
  createHmac_sha256_hex :: "string \<Rightarrow> string \<Rightarrow> string"
  JSON_parse :: "string \<Rightarrow> thrown + jsval"

record callback_request =
  x_webhook_signature :: "string option"
  body_text :: string

text \<open>A string or \<open>null\<close>/\<open>undefined\<close> header or environment variable is truthy when non-empty.\<close>

fun present :: "string option \<Rightarrow> bool" where
  "present None = False"
| "present (Some s) = (s \<noteq> [])"

text \<open>The \<open>catch\<close> block at the end of the handler.\<close>

definition callback_catch :: "thrown \<Rightarrow> response" where
  "callback_catch e =
     json_response
       [(''success'', JBool False),
        (''error'', JStr (case e of JsError m \<Rightarrow> m | NonError m \<Rightarrow> ''Internal server error''))]
       500"

definition businessName_of :: "(string \<times> jsval) list \<Rightarrow> jsval" where
  "businessName_of d =
     js_or (js_or (getProp (JObj d) ''restaurantName'') (getProp (JObj d) ''businessName''))
           (JStr ''the business'')"

definition generic_template :: "string \<Rightarrow> string \<Rightarrow> string" where
  "generic_template businessName status =
     [CHR 0xE2, CHR 0x84, CHR 0xB9, CHR 0xEF, CHR 0xB8, CHR 0x8F] @ '' The call to '' @ businessName
       @ '' ended with status: '' @ status @ ''.''"

text \<open>The \<open>switch (status)\<close> that builds \<open>messageContent\<close>.\<close>

definition messageContent ::
  "jsval \<Rightarrow> (string \<times> jsval) list \<Rightarrow> jsval \<Rightarrow> jsval \<Rightarrow> string" where
  "messageContent status d transcript reason =
     (let businessName = toStr (businessName_of d) in
      if status = JStr ''completed'' then
        [CHR 0xE2, CHR 0x9C, CHR 0x85] @ '' Great news! Your reservation at '' @ businessName
          @ '' is CONFIRMED for '' @ toStr (getProp (JObj d) ''dateTime'')
          @ '', party of '' @ toStr (getProp (JObj d) ''partySize'') @ ''.''
          @ (if truthy transcript
             then [CHR 0x0A, CHR 0x0A] @ ''Call Summary:'' @ [CHR 0x0A] @ toStr transcript
             else [])
      else if status = JStr ''failed'' then
        [CHR 0xE2, CHR 0x9D, CHR 0x8C] @ '' We couldn't complete your booking at '' @ businessName
          @ ''.''
          @ (if truthy reason then '' Reason: '' @ toStr reason @ ''.'' else [])
          @ '' Would you like me to try again or try a different time?''
      else if status = JStr ''busy'' then
        [CHR 0xF0, CHR 0x9F, CHR 0x93, CHR 0xB5] @ '' The line was busy when we tried to call ''
          @ businessName @ ''. Would you like me to retry?''
      else if status = JStr ''no-answer'' then
        [CHR 0xF0, CHR 0x9F, CHR 0x93, CHR 0xB5] @ '' There was no answer when we called ''
          @ businessName
          @ ''. They might be closed or very busy. Would you like to try again later?''
      else generic_template businessName (toStr status))"

text \<open>\<open>status === 'completed' ? 'completed' : 'failed'\<close>\<close>

definition bookingStatus :: "jsval \<Rightarrow> string" where
  "bookingStatus status = (if status = JStr ''completed'' then ''completed'' else ''failed'')"

text \<open>The \<open>result\<close> column written by the update: \<open>{ transcript, duration, reason, ...result }\<close>.\<close>

definition result_payload :: "jsval \<Rightarrow> jsval \<Rightarrow> jsval \<Rightarrow> jsval \<Rightarrow> jsval" where
  "result_payload transcript duration reason result =
     JObj (jsonProps (objectSpread
       [(''transcript'', transcript), (''duration'', duration), (''reason'', reason)] result))"

text \<open>\<open>.from('bookings').select(...).eq('call_id', callId).single()\<close>\<close>

definition find_booking :: "store_faults \<Rightarrow> db \<Rightarrow> jsval \<Rightarrow> booking option" where
  "find_booking faults d callId =
     (if select_error faults \<noteq> None then None
      else single (filter (\<lambda>b. b_call_id b = Some (toStr callId)) (bookings d)))"

text \<open>\<open>.from('bookings').update({ status, result }).eq('id', booking.id)\<close>\<close>

definition update_booking :: "string \<Rightarrow> string \<Rightarrow> jsval \<Rightarrow> db \<Rightarrow> db" where
  "update_booking bid st res d =
     d\<lparr>bookings :=
        map (\<lambda>b. if b_id b = bid then b\<lparr>b_status := st, b_result := res\<rparr> else b) (bookings d)\<rparr>"

definition insert_message :: "message \<Rightarrow> db \<Rightarrow> db" where
  "insert_message m d = d\<lparr>messages := messages d @ [m]\<rparr>"

text \<open>
  The handler. The store client is taken as constructed; the message of the \<open>TypeError\<close>
  that destructuring \<open>null\<close> throws is the engine's.
\<close>

definition POST_booking_callback ::
  "callback_env \<Rightarrow> store_faults \<Rightarrow> callback_request \<Rightarrow> db \<Rightarrow> response \<times> db" where
  "POST_booking_callback env faults request d =
     (let signature = x_webhook_signature request;
          webhookSecret = WEBHOOK_SECRET env in
      if present webhookSecret \<and> present signature
         \<and> the signature \<noteq> createHmac_sha256_hex env (the webhookSecret) (body_text request)
      then (json_response [(''success'', JBool False), (''error'', JStr ''Invalid signature'')] 401, d)
      else
        case JSON_parse env (body_text request) of
          Inl e \<Rightarrow> (callback_catch e, d)
        | Inr callbackData \<Rightarrow>
            if nullish callbackData
            then (callback_catch (JsError
                    ''Cannot destructure property 'callId' of 'callbackData' as it is null.''), d)
            else
              let callId = getProp callbackData ''callId'';
                  status = getProp callbackData ''status'';
                  result = getProp callbackData ''result'';
                  transcript = getProp callbackData ''transcript'';
                  duration = getProp callbackData ''duration'';
                  reason = getProp callbackData ''reason''
              in
              if \<not> truthy callId
              then (json_response [(''success'', JBool False), (''error'', JStr ''Missing callId'')] 400, d)
              else
                (case find_booking faults d callId of
                  None \<Rightarrow>
                    (json_response
                       [(''success'', JBool False), (''error'', JStr ''Booking not found'')] 404, d)
                | Some booking \<Rightarrow>
                    (case update_error faults of
                       Some e \<Rightarrow> (callback_catch e, d)
                     | None \<Rightarrow>
                         let d1 = update_booking (b_id booking) (bookingStatus status)
                                    (result_payload transcript duration reason result) d;
                             content = messageContent status (b_details booking) transcript reason
                         in
                         (case insert_error faults of
                            Some e \<Rightarrow> (callback_catch e, d1)
                          | None \<Rightarrow>
                              (json_response [(''success'', JBool True)] 200,
                               insert_message
                                 \<lparr>m_chat_id = b_chat_id booking,
                                  m_role = ''system'',
                                  m_content = content,
                                  m_metadata = JObj (jsonProps
                                    [(''callId'', callId),
                                     (''bookingId'', JStr (b_id booking)),
                                     (''status'', status)])\<rparr>
                                 d1)))))"

definition passes_gate :: "callback_env \<Rightarrow> callback_request \<Rightarrow> bool" where
  "passes_gate env request =
     (\<not> (present (WEBHOOK_SECRET env) \<and> present (x_webhook_signature request)
         \<and> the (x_webhook_signature request)
             \<noteq> createHmac_sha256_hex env (the (WEBHOOK_SECRET env)) (body_text request)))"

definition ex_details :: "(string \<times> jsval) list" where
  "ex_details =
     [(''restaurantName'', JStr ''The Garden Restaurant''),
      (''businessName'', JStr ''The Garden Restaurant''),
      (''phoneNumber'', JStr ''+12125551234''),
      (''dateTime'', JStr ''2025-01-15 19:00''),
      (''partySize'', JNum 4),
      (''customerName'', JStr ''Ann''),
      (''specialRequests'', JStr [])]"

definition ex_booking :: booking where
  "ex_booking =
     \<lparr>b_id = ''b1'', b_user_id = ''u1'', b_chat_id = ''c1'', b_call_id = Some ''call-1'',
      b_booking_type = ''restaurant'', b_status = ''calling'', b_details = ex_details,
      b_result = JObj [(''confirmation'', JStr ''ABC123'')]\<rparr>"

definition ex_db :: db where
  "ex_db =
     \<lparr>bookings = [ex_booking], messages = [],
      chats = [\<lparr>c_id = ''c1'', c_user_id = ''u1'', c_openai_thread_id = None\<rparr>]\<rparr>"

definition ex_callback_env :: "string option \<Rightarrow> jsval \<Rightarrow> callback_env" where
  "ex_callback_env secret parsed =
     \<lparr>WEBHOOK_SECRET = secret,
      createHmac_sha256_hex = (\<lambda>key body. ''mac('' @ key @ '','' @ body @ '')''),
      JSON_parse = (\<lambda>body. Inr parsed)\<rparr>"

definition ex_notification :: "string \<Rightarrow> jsval" where
  "ex_notification st = JObj [(''callId'', JStr ''call-1''), (''status'', JStr st)]"

definition ex_request :: "string option \<Rightarrow> callback_request" where
  "ex_request sig = \<lparr>x_webhook_signature = sig, body_text = ''body''\<rparr>"

section \<open>The other callback handler (second file of \<open>app/page.tsx\<close>)\<close>

text \<open>
  The repository holds a second handler for the same webhook, authenticated by equality of
  the \<open>x-webhook-secret\<close> header with the secret. It is modelled for comparison with the
  relay above.
\<close>

record secret_request =
  x_webhook_secret :: "string option"
  secret_body_text :: string

definition createSystemMessage :: "jsval \<Rightarrow> (string \<times> jsval) list \<Rightarrow> jsval \<Rightarrow> string" where
  "createSystemMessage status d result =
     (let restaurantName = toStr (getProp (JObj d) ''restaurantName'');
          phoneNumber = toStr (getProp (JObj d) ''phoneNumber'');
          dateTime = toStr (getProp (JObj d) ''dateTime'');
          partySize = toStr (getProp (JObj d) ''partySize'');
          customerName = toStr (getProp (JObj d) ''customerName'')
      in
      if status = JStr ''completed'' \<or> status = JStr ''ended'' then
        [CHR 0xE2, CHR 0x9C, CHR 0x85] @ '' Great news! Your reservation at '' @ restaurantName
          @ '' is CONFIRMED for '' @ dateTime @ '', party of '' @ partySize
          @ '' people under the name '' @ customerName @ ''.''
      else if status = JStr ''failed'' then
        [CHR 0xE2, CHR 0x9D, CHR 0x8C] @ '' Sorry, we couldn't complete your booking. ''
          @ toStr (js_or (if nullish result then JUndefined else getProp result ''reason'')
                         (JStr ''Unknown error''))
          @ ''. Would you like me to try again or call them directly at '' @ phoneNumber @ ''?''
      else if status = JStr ''busy'' then
        [CHR 0xF0, CHR 0x9F, CHR 0x93, CHR 0xB5]
          @ '' The line was busy. Would you like me to retry in a few minutes?''
      else if status = JStr ''no-answer'' then
        [CHR 0xF0, CHR 0x9F, CHR 0x93, CHR 0xB5]
          @ '' No one answered. The restaurant might be closed or very busy right now.''
      else if status = JStr ''voicemail'' then
        [CHR 0xF0, CHR 0x9F, CHR 0x93, CHR 0xA7]
          @ '' The call went to voicemail. You may want to call them directly at ''
          @ phoneNumber @ ''.''
      else
        [CHR 0xE2, CHR 0x84, CHR 0xB9, CHR 0xEF, CHR 0xB8, CHR 0x8F] @ '' Call status: ''
          @ toStr status @ ''. Please check with the restaurant at '' @ phoneNumber
          @ '' to confirm your reservation.'')"

definition secret_catch :: "thrown \<Rightarrow> response" where
  "secret_catch e =
     json_response
       [(''error'', JStr ''Internal server error''),
        (''details'', JStr (case e of JsError m \<Rightarrow> m | NonError m \<Rightarrow> ''[object Object]''))]
       500"

definition POST_booking_callback_secret ::
  "callback_env \<Rightarrow> store_faults \<Rightarrow> secret_request \<Rightarrow> db \<Rightarrow> response \<times> db" where
  "POST_booking_callback_secret env faults request d =
     (if \<not> present (WEBHOOK_SECRET env)
      then (json_response [(''error'', JStr ''Server configuration error'')] 500, d)
      else if x_webhook_secret request \<noteq> WEBHOOK_SECRET env
      then (json_response [(''error'', JStr ''Unauthorized'')] 401, d)
      else
        case JSON_parse env (secret_body_text request) of
          Inl e \<Rightarrow> (secret_catch e, d)
        | Inr body \<Rightarrow>
            if nullish body
            then (secret_catch (JsError ''Cannot read properties of null (reading 'callId')''), d)
            else if \<not> (truthy (getProp body ''callId'') \<and> truthy (getProp body ''status''))
            then (json_response
                    [(''error'', JStr ''Missing required fields: callId and status'')] 400, d)
            else
              (case find_booking faults d (getProp body ''callId'') of
                 None \<Rightarrow> (json_response [(''error'', JStr ''Booking not found'')] 404, d)
               | Some booking \<Rightarrow>
                   (case update_error faults of
                      Some updateError \<Rightarrow>
                        (json_response
                           [(''error'', JStr ''Failed to update booking''),
                            (''details'', JStr (message_of updateError))] 500, d)
                    | None \<Rightarrow>
                        let d1 = update_booking (b_id booking) (toStr (getProp body ''status''))
                                   (JObj (jsonProps (objectSpread
                                      [(''transcript'', js_or (getProp body ''transcript'') (JStr [])),
                                       (''duration'', js_or (getProp body ''duration'') (JNum 0))]
                                      (getProp body ''result'')))) d
                        in
                        (json_response [(''success'', JBool True)] 200,
                         if insert_error faults \<noteq> None then d1
                         else
                           insert_message
                             \<lparr>m_chat_id = b_chat_id booking,
                              m_role = ''system'',
                              m_content = createSystemMessage (getProp body ''status'')
                                            (b_details booking) (getProp body ''result''),
                              m_metadata = JObj (jsonProps
                                [(''callId'', getProp body ''callId''),
                                 (''bookingId'', JStr (b_id booking)),
                                 (''status'', getProp body ''status'')])\<rparr>
                             d1))))"

section \<open>Phone number patterns\<close>

text \<open>
  The two patterns are anchored at both ends and are sequences of one-character atoms with
  a repetition count, so a regular expression is modelled as the list of its atoms with
  their bounds, and \<open>test\<close> as the search for a way to split the whole input among them.
\<close>

datatype atom = Lit char | Range char char

type_synonym regex = "(atom \<times> nat \<times> nat) list"

fun atom_matches :: "atom \<Rightarrow> char \<Rightarrow> bool" where
  "atom_matches (Lit a) c = (c = a)"
| "atom_matches (Range lo hi) c = ((of_char lo :: nat) \<le> of_char c \<and> (of_char c :: nat) \<le> of_char hi)"

fun regex_test :: "regex \<Rightarrow> string \<Rightarrow> bool" where
  "regex_test [] s = (s = [])"
| "regex_test ((a, lo, hi) # rs) s =
     (if 0 < lo
      then (case s of [] \<Rightarrow> False
            | c # cs \<Rightarrow> atom_matches a c \<and> regex_test ((a, lo - 1, hi - 1) # rs) cs)
      else (0 < hi \<and> (case s of [] \<Rightarrow> False
                       | c # cs \<Rightarrow> atom_matches a c \<and> regex_test ((a, 0, hi - 1) # rs) cs))
           \<or> regex_test rs s)"

text \<open>\<open>/^\+[1-9]\d{7,14}$/\<close> of \<open>route.ts\<close>.\<close>

definition phoneRegex :: regex where
  "phoneRegex = [(Lit CHR ''+'', 1, 1), (Range CHR ''1'' CHR ''9'', 1, 1), (Range CHR ''0'' CHR ''9'', 7, 14)]"

text \<open>\<open>/^\+[1-9]\d{1,14}$/\<close> of \<open>isValidE164PhoneNumber\<close> (part 003).\<close>

definition e164Regex :: regex where
  "e164Regex = [(Lit CHR ''+'', 1, 1), (Range CHR ''1'' CHR ''9'', 1, 1), (Range CHR ''0'' CHR ''9'', 1, 14)]"

definition isValidE164PhoneNumber :: "string \<Rightarrow> bool" where
  "isValidE164PhoneNumber phoneNumber = regex_test e164Regex phoneNumber"

text \<open>
  The specification's reading of E.164 syntax: a leading "+", a first digit from 1 to 9,
  digits only after it, and between \<open>lo\<close> and \<open>hi\<close> digits in all.
\<close>

definition is_digit :: "char \<Rightarrow> bool" where
  "is_digit c = ((48::nat) \<le> of_char c \<and> (of_char c :: nat) \<le> 57)"

definition plus_digits :: "nat \<Rightarrow> nat \<Rightarrow> string \<Rightarrow> bool" where
  "plus_digits lo hi s =
     (case s of
        [] \<Rightarrow> False
      | c # ds \<Rightarrow>
          c = CHR ''+'' \<and> list_all is_digit ds \<and> lo \<le> length ds \<and> length ds \<le> hi
          \<and> (case ds of [] \<Rightarrow> False | f # r \<Rightarrow> f \<noteq> CHR ''0''))"

section \<open>Booking initiation: \<open>POST /api/booking/start\<close> (\<open>route.ts\<close>)\<close>

text \<open>What \<open>fetch\<close> on the call-placing service ends in.\<close>

datatype fetch_result =
    FetchAbort
  | FetchFailed string
  | FetchResponse bool nat string string "thrown + jsval"

text \<open>
  \<open>FetchAbort\<close> is the \<open>AbortError\<close> of the 30-second timer, \<open>FetchFailed\<close> any other rejection
  with its message, and \<open>FetchResponse ok status statusText text json\<close> a response with the
  results of \<open>text()\<close> and \<open>json()\<close>.
\<close>

record start_env =
  MCP_SERVER_URL :: "string option"
  fetch_mcp :: "string \<Rightarrow> jsval \<Rightarrow> fetch_result"
  new_booking_id :: string

record start_request =
  request_json :: "thrown + jsval"

definition start_catch :: "thrown \<Rightarrow> response" where
  "start_catch e =
     json_response
       [(''success'', JBool False),
        (''error'', JStr (case e of JsError m \<Rightarrow> m | NonError m \<Rightarrow> ''Internal server error''))]
       500"

text \<open>\<open>.from('chats').select('id').eq('id', chatId).eq('user_id', userId).single()\<close>\<close>

definition find_chat_of_user :: "store_faults \<Rightarrow> db \<Rightarrow> jsval \<Rightarrow> jsval \<Rightarrow> chat option" where
  "find_chat_of_user faults d chatId userId =
     (if select_error faults \<noteq> None then None
      else single (filter (\<lambda>c. c_id c = toStr chatId \<and> c_user_id c = toStr userId) (chats d)))"

definition insert_booking :: "booking \<Rightarrow> db \<Rightarrow> db" where
  "insert_booking b d = d\<lparr>bookings := bookings d @ [b]\<rparr>"

text \<open>\<open>.from('bookings').update({ call_id, status: 'calling' }).eq('id', booking.id)\<close>\<close>

definition set_calling :: "string \<Rightarrow> string \<Rightarrow> db \<Rightarrow> db" where
  "set_calling bid cid d =
     d\<lparr>bookings :=
        map (\<lambda>b. if b_id b = bid then b\<lparr>b_call_id := Some cid, b_status := ''calling''\<rparr> else b)
          (bookings d)\<rparr>"

text \<open>The part of the handler after the booking row exists: the call to the MCP server.\<close>

definition place_call ::
  "start_env \<Rightarrow> store_faults \<Rightarrow> jsval \<Rightarrow> string \<Rightarrow> db \<Rightarrow> response \<times> db" where
  "place_call env faults mcpRequest bookingId d =
     (if \<not> present (MCP_SERVER_URL env)
      then (start_catch (JsError ''MCP server not configured''), d)
      else
        case fetch_mcp env (the (MCP_SERVER_URL env) @ ''/mcp'') mcpRequest of
          FetchAbort \<Rightarrow>
            (start_catch (JsError ''MCP server request timed out. Please try again.''), d)
        | FetchFailed m \<Rightarrow>
            (start_catch (JsError (''Failed to connect to MCP server: '' @ m)), d)
        | FetchResponse ok st statusText errorText parsed \<Rightarrow>
            if \<not> ok
            then (start_catch (JsError (''MCP server error ('' @ show_nat st @ ''): ''
                     @ (if errorText \<noteq> [] then errorText else statusText))), d)
            else
              (case parsed of
                 Inl e \<Rightarrow> (start_catch (JsError ''Invalid response from MCP server''), d)
               | Inr mcpData \<Rightarrow>
                   if nullish mcpData
                   then (start_catch (JsError ''Cannot read properties of null (reading 'error')''), d)
                   else if truthy (getProp mcpData ''error'')
                   then (start_catch (JsError (''MCP server error: ''
                           @ toStr (getProp (getProp mcpData ''error'') ''message''))), d)
                   else
                     let callId = (if nullish (getProp mcpData ''result'') then JUndefined
                                   else getProp (getProp mcpData ''result'') ''callId'')
                     in
                     if \<not> truthy callId
                     then (start_catch (JsError ''MCP server did not return a callId''), d)
                     else
                       (json_response
                          [(''success'', JBool True), (''callId'', callId),
                           (''bookingId'', JStr bookingId)] 200,
                        if update_error faults \<noteq> None then d
                        else set_calling bookingId (toStr callId) d)))"

text \<open>
  The handler. The messages of the \<open>TypeError\<close>s are the engine's. A truthy \<open>phoneNumber\<close>
  that is not a string has no \<open>replace\<close> method, so the logging statement throws on it.
\<close>

definition POST_booking_start ::
  "start_env \<Rightarrow> store_faults \<Rightarrow> start_request \<Rightarrow> db \<Rightarrow> response \<times> db" where
  "POST_booking_start env faults request d =
     (case request_json request of
        Inl e \<Rightarrow> (start_catch e, d)
      | Inr body \<Rightarrow>
          if nullish body
          then (start_catch (JsError
                  ''Cannot destructure property 'chatId' of 'body' as it is null.''), d)
          else
            let chatId = getProp body ''chatId'';
                userId = getProp body ''userId'';
                bookingType = getProp body ''bookingType'';
                restaurantName = getProp body ''restaurantName'';
                phoneNumber = getProp body ''phoneNumber'';
                dateTime = getProp body ''dateTime'';
                partySize = getProp body ''partySize'';
                customerName = getProp body ''customerName'';
                specialRequests = getProp body ''specialRequests''
            in
            if \<not> nullish phoneNumber \<and> (case phoneNumber of JStr p \<Rightarrow> False | _ \<Rightarrow> True)
            then (start_catch (JsError ''phoneNumber?.replace is not a function''), d)
            else if \<not> truthy chatId \<or> \<not> truthy userId \<or> \<not> truthy bookingType
                    \<or> \<not> truthy restaurantName \<or> \<not> truthy phoneNumber \<or> \<not> truthy dateTime
                    \<or> \<not> truthy partySize \<or> \<not> truthy customerName
            then (json_response
                    [(''success'', JBool False),
                     (''error'', JStr ''Missing required fields''),
                     (''details'', JStr ''chatId, userId, bookingType, restaurantName, phoneNumber, dateTime, partySize, and customerName are required'')]
                    400, d)
            else if bookingType \<notin> set [JStr ''restaurant'', JStr ''hotel'', JStr ''taxi'']
            then (json_response
                    [(''success'', JBool False),
                     (''error'', JStr ''Invalid booking type''),
                     (''details'', JStr ''bookingType must be one of: restaurant, hotel, taxi'')]
                    400, d)
            else if \<not> regex_test phoneRegex (toStr phoneNumber)
            then (json_response
                    [(''success'', JBool False),
                     (''error'', JStr ''Invalid phone number format''),
                     (''details'', JStr ''Phone number must be in E.164 format (e.g., +12125551234 or +972501234567)'')]
                    400, d)
            else if (case partySize of JNum n \<Rightarrow> n < 1 \<or> 100 < n | _ \<Rightarrow> True)
            then (json_response
                    [(''success'', JBool False),
                     (''error'', JStr ''Invalid party size''),
                     (''details'', JStr ''Party size must be a number between 1 and 100'')]
                    400, d)
            else
              (case find_chat_of_user faults d chatId userId of
                 None \<Rightarrow>
                   (json_response
                      [(''success'', JBool False),
                       (''error'', JStr ''Chat not found or access denied'')] 404, d)
               | Some chatExists \<Rightarrow>
                   (case insert_error faults of
                      Some bookingError \<Rightarrow>
                        (start_catch (JsError (''Failed to create booking: ''
                           @ message_of bookingError)), d)
                    | None \<Rightarrow>
                        place_call env faults
                          (JObj
                            [(''jsonrpc'', JStr ''2.0''),
                             (''method'', JStr ''tools/call''),
                             (''params'', JObj
                               [(''name'', JStr ''start_booking_call''),
                                (''arguments'', JObj
                                  [(''phoneNumber'', phoneNumber),
                                   (''bookingType'', bookingType),
                                   (''customerName'', customerName),
                                   (''partySize'', partySize),
                                   (''dateTime'', dateTime),
                                   (''businessName'', restaurantName),
                                   (''specialRequests'', js_or specialRequests (JStr [])),
                                   (''language'', JStr ''en'')])]),
                             (''id'', JNum 1)])
                          (new_booking_id env)
                          (insert_booking
                             \<lparr>b_id = new_booking_id env,
                              b_user_id = toStr userId,
                              b_chat_id = toStr chatId,
                              b_call_id = None,
                              b_booking_type = toStr bookingType,
                              b_status = ''initiated'',
                              b_details = jsonProps
                                [(''restaurantName'', restaurantName),
                                 (''businessName'', restaurantName),
                                 (''phoneNumber'', phoneNumber),
                                 (''dateTime'', dateTime),
                                 (''partySize'', partySize),
                                 (''customerName'', customerName),
                                 (''specialRequests'', js_or specialRequests (JStr []))],
                              b_result = JObj []\<rparr>
                             d))))"

definition ex_start_body :: "string \<Rightarrow> jsval" where
  "ex_start_body phone =
     JObj [(''chatId'', JStr ''c1''), (''userId'', JStr ''u1''),
           (''bookingType'', JStr ''restaurant''),
           (''restaurantName'', JStr ''The Garden Restaurant''),
           (''phoneNumber'', JStr phone),
           (''dateTime'', JStr ''2025-01-15 19:00''),
           (''partySize'', JNum 4),
           (''customerName'', JStr ''Ann'')]"

definition ex_start_env :: "fetch_result \<Rightarrow> start_env" where
  "ex_start_env r =
     \<lparr>MCP_SERVER_URL = Some ''http://mcp.test'', fetch_mcp = (\<lambda>url body. r),
      new_booking_id = ''b2''\<rparr>"

definition invalid_phone_response :: response where
  "invalid_phone_response =
     json_response
       [(''success'', JBool False),
        (''error'', JStr ''Invalid phone number format''),
        (''details'', JStr ''Phone number must be in E.164 format (e.g., +12125551234 or +972501234567)'')]
       400"

section \<open>The Conversation Service and the clock\<close>

record tool_call =
  tc_id :: string
  tc_name :: string
  tc_arguments :: string

text \<open>
  A run as the handlers read it: \<open>run.id\<close>, \<open>run.status\<close>,
  \<open>run.required_action?.submit_tool_outputs?.tool_calls\<close> and \<open>run.last_error?.message\<close>.
\<close>

record run =
  run_id :: string
  run_status :: string
  run_tool_calls :: "tool_call list option"
  run_last_error :: "string option"

record tool_output =
  tool_call_id :: string
  output_json :: string

datatype content_part = TextPart string | OtherPart string

record thread_message =
  tm_id :: string
  tm_role :: string
  tm_content :: "content_part list"

text \<open>
  The hosted service is a state machine over a state \<open>'o\<close> that only it knows: each call of
  the client library returns a result or throws, and moves the service on.
\<close>

record 'o service_api =
  threads_create :: "'o \<Rightarrow> (thrown + string) \<times> 'o"
  messages_create :: "string \<Rightarrow> string \<Rightarrow> 'o \<Rightarrow> thrown option \<times> 'o"
  runs_create :: "string \<Rightarrow> string \<Rightarrow> 'o \<Rightarrow> (thrown + run) \<times> 'o"
  runs_retrieve :: "string \<Rightarrow> string \<Rightarrow> 'o \<Rightarrow> (thrown + run) \<times> 'o"
  runs_submitToolOutputs :: "string \<Rightarrow> string \<Rightarrow> tool_output list \<Rightarrow> 'o \<Rightarrow> (thrown + run) \<times> 'o"
  messages_list :: "string \<Rightarrow> 'o \<Rightarrow> (thrown + thread_message list) \<times> 'o"

text \<open>
  What a request runs against: the store, the service, and the clock, which is what
  \<open>Date.now()\<close> reads, in milliseconds. A timer advances the clock by its delay, and a call
  of the service by the time the call took, which \<open>latency\<close> tells from the state the call
  left the service in. The operations on the store take no time here, so the time a
  handler takes on this clock is never more than the time it really takes.
\<close>

record 'o world =
  store :: db
  service :: 'o
  clock :: nat
  latency :: "'o \<Rightarrow> nat"

text \<open>\<open>await new Promise((resolve) => setTimeout(resolve, ms))\<close>\<close>

definition sleep :: "nat \<Rightarrow> 'o world \<Rightarrow> 'o world" where
  "sleep ms w = w\<lparr>clock := clock w + ms\<rparr>"

text \<open>An awaited call of the service made from a world.\<close>

definition call_service :: "('o \<Rightarrow> 'r \<times> 'o) \<Rightarrow> 'o world \<Rightarrow> 'r \<times> 'o world" where
  "call_service f w =
     (case f (service w) of (r, s) \<Rightarrow> (r, w\<lparr>service := s, clock := clock w + latency w s\<rparr>))"

definition pending :: "run \<Rightarrow> bool" where
  "pending r = (run_status r = ''queued'' \<or> run_status r = ''in_progress'')"

section \<open>Message send orchestrator: \<open>POST /api/chat/send\<close> (part 005)\<close>

record send_env =
  OPENAI_ASSISTANT_ID :: "string option"
  parse_arguments :: "string \<Rightarrow> thrown + jsval"
  JSON_stringify :: "jsval \<Rightarrow> string"
  fetch_booking_start :: "jsval \<Rightarrow> db \<Rightarrow> fetch_result \<times> db"

text \<open>
  \<open>parse_arguments\<close> is \<open>JSON.parse\<close>, and \<open>fetch_booking_start\<close> the request that the tool
  handler sends to the application's own \<open>/api/booking/start\<close>, which works on the store.
\<close>

record send_faults =
  user_insert_error :: "thrown option"
  chat_select_error :: "thrown option"
  no_rows_error :: thrown
  thread_update_error :: "thrown option"
  booking_select_error :: "thrown option"
  assistant_insert_error :: "thrown option"

text \<open>
  The store's answers besides the rows: the error, if any, of each statement, and the
  error object that \<open>.single()\<close> gives when the query does not return exactly one row.
\<close>

record send_request =
  send_json :: "thrown + jsval"

definition send_catch :: "thrown \<Rightarrow> response" where
  "send_catch e =
     json_response
       [(''success'', JBool False),
        (''error'', JStr (case e of JsError m \<Rightarrow> m | NonError m \<Rightarrow> ''Internal server error''))]
       500"

definition maxAttempts :: nat where
  "maxAttempts = 60"

text \<open>
  The polling loop, written twice in the handler (before and after the tool outputs):
  it returns the last run and the value of \<open>attempts\<close>, or what \<open>retrieve\<close> threw.
\<close>

function poll_run ::
  "'o service_api \<Rightarrow> string \<Rightarrow> run \<Rightarrow> nat \<Rightarrow> 'o world \<Rightarrow> (thrown + run \<times> nat) \<times> 'o world" where
  "poll_run api threadId r attempts w =
     (if pending r \<and> attempts < maxAttempts
      then
        case call_service (runs_retrieve api threadId (run_id r)) (sleep 1000 w) of
          (Inl e, w') \<Rightarrow> (Inl e, w')
        | (Inr r', w') \<Rightarrow> poll_run api threadId r' (attempts + 1) w'
      else (Inr (r, attempts), w))"
  by pat_completeness auto
termination
  by (relation "measure (\<lambda>(api, threadId, r, attempts, w). maxAttempts - attempts)") auto

declare poll_run.simps [simp del]

text \<open>\<open>handleStartBookingCall\<close>\<close>

definition handleStartBookingCall ::
  "send_env \<Rightarrow> jsval \<Rightarrow> jsval \<Rightarrow> jsval \<Rightarrow> db \<Rightarrow> (thrown + jsval) \<times> db" where
  "handleStartBookingCall env args chatId userId d =
     (if nullish args
      then (Inl (JsError ''Cannot destructure property 'restaurantName' of 'args' as it is null.''), d)
      else
        let restaurantName = getProp args ''restaurantName'';
            bookingType = (if getProp args ''bookingType'' = JUndefined then JStr ''restaurant''
                           else getProp args ''bookingType'')
        in
        case fetch_booking_start env
               (JObj (jsonProps
                  [(''chatId'', chatId), (''userId'', userId), (''bookingType'', bookingType),
                   (''restaurantName'', restaurantName),
                   (''phoneNumber'', getProp args ''phoneNumber''),
                   (''dateTime'', getProp args ''dateTime''),
                   (''partySize'', getProp args ''partySize''),
                   (''customerName'', getProp args ''customerName''),
                   (''specialRequests'', getProp args ''specialRequests'')])) d of
          (FetchAbort, d') \<Rightarrow> (Inl (JsError ''This operation was aborted''), d')
        | (FetchFailed m, d') \<Rightarrow> (Inl (JsError m), d')
        | (FetchResponse ok st statusText errorText parsed, d') \<Rightarrow>
            if \<not> ok then (Inl (JsError (''Booking API error: '' @ errorText)), d')
            else
              (case parsed of
                 Inl e \<Rightarrow> (Inl e, d')
               | Inr result \<Rightarrow>
                   if nullish result
                   then (Inl (JsError ''Cannot read properties of null (reading 'callId')''), d')
                   else
                     (Inr (JObj
                        [(''success'', JBool True),
                         (''callId'', getProp result ''callId''),
                         (''bookingId'', getProp result ''bookingId''),
                         (''message'', JStr (''Started calling '' @ toStr restaurantName
                            @ ''. You'll be notified when complete.''))]), d')))"

text \<open>\<open>handleGetBookingStatus\<close>\<close>

definition handleGetBookingStatus :: "send_faults \<Rightarrow> jsval \<Rightarrow> jsval \<Rightarrow> db \<Rightarrow> thrown + jsval" where
  "handleGetBookingStatus faults args chatId d =
     (if nullish args
      then Inl (JsError ''Cannot destructure property 'bookingId' of 'args' as it is null.'')
      else
        case (if booking_select_error faults \<noteq> None then None
              else single (filter (\<lambda>b. b_id b = toStr (getProp args ''bookingId'')
                                        \<and> b_chat_id b = toStr chatId) (bookings d))) of
          None \<Rightarrow> Inr (JObj [(''error'', JStr ''Booking not found'')])
        | Some booking \<Rightarrow>
            Inr (JObj
              [(''bookingId'', JStr (b_id booking)),
               (''status'', JStr (b_status booking)),
               (''bookingType'', JStr (b_booking_type booking)),
               (''details'', JObj (b_details booking)),
               (''result'', b_result booking)]))"

text \<open>
  The body of the \<open>try\<close> in \<open>handleToolCalls\<close> (the \<open>switch\<close> on the function name) and its
  \<open>catch\<close>: the output pushed for one tool call whose arguments are already parsed.
\<close>

definition dispatch_tool ::
  "send_env \<Rightarrow> send_faults \<Rightarrow> string \<Rightarrow> jsval \<Rightarrow> jsval \<Rightarrow> jsval \<Rightarrow> db \<Rightarrow> (thrown + jsval) \<times> db" where
  "dispatch_tool env faults functionName functionArgs chatId userId d =
     (if functionName = ''start_booking_call''
      then handleStartBookingCall env functionArgs chatId userId d
      else if functionName = ''get_booking_status''
      then (handleGetBookingStatus faults functionArgs chatId d, d)
      else (Inr (JObj [(''error'', JStr (''Unknown function: '' @ functionName))]), d))"

definition tool_error_output :: "thrown \<Rightarrow> jsval" where
  "tool_error_output e =
     JObj [(''error'', JStr (case e of JsError m \<Rightarrow> m | NonError m \<Rightarrow> ''Tool execution failed''))]"

text \<open>
  \<open>handleToolCalls\<close> of the handler: \<open>JSON.parse\<close> stands before the \<open>try\<close>, so what it throws
  leaves the function.
\<close>

fun handleToolCalls ::
  "send_env \<Rightarrow> send_faults \<Rightarrow> tool_call list \<Rightarrow> jsval \<Rightarrow> jsval \<Rightarrow> db
     \<Rightarrow> (thrown + tool_output list) \<times> db" where
  "handleToolCalls env faults [] chatId userId d = (Inr [], d)"
| "handleToolCalls env faults (toolCall # rest) chatId userId d =
     (case parse_arguments env (tc_arguments toolCall) of
        Inl e \<Rightarrow> (Inl e, d)
      | Inr functionArgs \<Rightarrow>
          (case dispatch_tool env faults (tc_name toolCall) functionArgs chatId userId d of
             (res, d1) \<Rightarrow>
               (case handleToolCalls env faults rest chatId userId d1 of
                  (Inl e, d2) \<Rightarrow> (Inl e, d2)
                | (Inr outs, d2) \<Rightarrow>
                    (Inr (\<lparr>tool_call_id = tc_id toolCall,
                           output_json = JSON_stringify env
                             (case res of Inr out \<Rightarrow> out | Inl e \<Rightarrow> tool_error_output e)\<rparr>
                          # outs), d2))))"

text \<open>
  Lines 86 to 138 of the handler: create the run, poll, and when the run requires action
  and lists tool calls, run them, submit their outputs and poll again from \<open>attempts = 0\<close>.
\<close>

definition run_phase ::
  "'o service_api \<Rightarrow> send_env \<Rightarrow> send_faults \<Rightarrow> string \<Rightarrow> string \<Rightarrow> jsval \<Rightarrow> jsval \<Rightarrow> 'o world
     \<Rightarrow> (thrown + run) \<times> 'o world" where
  "run_phase api env faults assistantId threadId chatId userId w =
     (case call_service (runs_create api threadId assistantId) w of
        (Inl e, w1) \<Rightarrow> (Inl e, w1)
      | (Inr r0, w1) \<Rightarrow>
          (case poll_run api threadId r0 0 w1 of
             (Inl e, w2) \<Rightarrow> (Inl e, w2)
           | (Inr (r1, attempts), w2) \<Rightarrow>
               if run_status r1 = ''requires_action''
                  \<and> (case run_tool_calls r1 of None \<Rightarrow> False | Some toolCalls \<Rightarrow> toolCalls \<noteq> [])
               then
                 (case handleToolCalls env faults (the (run_tool_calls r1)) chatId userId (store w2) of
                    (Inl e, d3) \<Rightarrow> (Inl e, w2\<lparr>store := d3\<rparr>)
                  | (Inr toolOutputs, d3) \<Rightarrow>
                      (case call_service
                              (runs_submitToolOutputs api threadId (run_id r1) toolOutputs)
                              (w2\<lparr>store := d3\<rparr>) of
                         (Inl e, w4) \<Rightarrow> (Inl e, w4)
                       | (Inr r2, w4) \<Rightarrow>
                           (case poll_run api threadId r2 0 w4 of
                              (Inl e, w5) \<Rightarrow> (Inl e, w5)
                            | (Inr (r3, attempts'), w5) \<Rightarrow> (Inr r3, w5))))
               else (Inr r1, w2)))"

text \<open>Lines 140 to 199: the final status checks, the assistant's reply and its row.\<close>

definition finish_run ::
  "'o service_api \<Rightarrow> send_faults \<Rightarrow> string \<Rightarrow> jsval \<Rightarrow> run \<Rightarrow> 'o world \<Rightarrow> response \<times> 'o world" where
  "finish_run api faults threadId chatId r w =
     (if run_status r = ''failed''
      then (send_catch (JsError (''Assistant run failed: ''
              @ (if present (run_last_error r) then the (run_last_error r) else ''Unknown error''))), w)
      else if run_status r = ''expired''
      then (send_catch (JsError ''Assistant run expired''), w)
      else if run_status r = ''cancelled''
      then (send_catch (JsError ''Assistant run was cancelled''), w)
      else
        case call_service (messages_list api threadId) w of
          (Inl e, w1) \<Rightarrow> (send_catch e, w1)
        | (Inr msgs, w1) \<Rightarrow>
            (case msgs of
               [] \<Rightarrow> (send_catch (JsError ''No assistant response found''), w1)
             | assistantMessage # older \<Rightarrow>
                 if tm_role assistantMessage \<noteq> ''assistant''
                 then (send_catch (JsError ''No assistant response found''), w1)
                 else
                   (case List.find (\<lambda>c. case c of TextPart t \<Rightarrow> True | OtherPart ty \<Rightarrow> False)
                            (tm_content assistantMessage) of
                      Some (TextPart assistantResponse) \<Rightarrow>
                        (case assistant_insert_error faults of
                           Some e \<Rightarrow> (send_catch e, w1)
                         | None \<Rightarrow>
                             (json_response
                                [(''success'', JBool True),
                                 (''message'', JObj
                                    [(''chat_id'', JStr (toStr chatId)),
                                     (''role'', JStr ''assistant''),
                                     (''content'', JStr assistantResponse),
                                     (''metadata'', JObj
                                        [(''thread_id'', JStr threadId),
                                         (''run_id'', JStr (run_id r))])])] 200,
                              w1\<lparr>store := insert_message
                                   \<lparr>m_chat_id = toStr chatId, m_role = ''assistant'',
                                    m_content = assistantResponse,
                                    m_metadata = JObj
                                      [(''thread_id'', JStr threadId),
                                       (''run_id'', JStr (run_id r))]\<rparr>
                                   (store w1)\<rparr>))
                    | _ \<Rightarrow> (send_catch (JsError ''No text content in assistant response''), w1))))"

text \<open>\<open>.from('chats').update({ openai_thread_id: threadId }).eq('id', chatId)\<close>\<close>

definition set_thread_id :: "string \<Rightarrow> string \<Rightarrow> db \<Rightarrow> db" where
  "set_thread_id cid threadId d =
     d\<lparr>chats := map (\<lambda>c. if c_id c = cid then c\<lparr>c_openai_thread_id := Some threadId\<rparr> else c)
                    (chats d)\<rparr>"

text \<open>
  Lines 60 to 84: take the chat's thread or create one and save its id, then add the
  user's message to the thread.
\<close>

definition thread_phase ::
  "'o service_api \<Rightarrow> send_faults \<Rightarrow> chat \<Rightarrow> jsval \<Rightarrow> jsval \<Rightarrow> 'o world
     \<Rightarrow> (thrown + string) \<times> 'o world" where
  "thread_phase api faults chatRow chatId message w =
     (case (if present (c_openai_thread_id chatRow)
            then (Inr (the (c_openai_thread_id chatRow)), w)
            else
              (case call_service (threads_create api) w of
                 (Inl e, w1) \<Rightarrow> (Inl e, w1)
               | (Inr threadId, w1) \<Rightarrow>
                   (case thread_update_error faults of
                      Some e \<Rightarrow> (Inl e, w1)
                    | None \<Rightarrow>
                        (Inr threadId,
                         w1\<lparr>store := set_thread_id (toStr chatId) threadId (store w1)\<rparr>)))) of
        (Inl e, w2) \<Rightarrow> (Inl e, w2)
      | (Inr threadId, w2) \<Rightarrow>
          (case call_service (messages_create api threadId (toStr message)) w2 of
             (Some e, w3) \<Rightarrow> (Inl e, w3)
           | (None, w3) \<Rightarrow> (Inr threadId, w3)))"

text \<open>
  The handler. The fields \<open>chatId\<close> and \<open>message\<close> reach the store and the service as
  strings, which is what they are for a request of type \<open>SendMessageRequest\<close>.
\<close>

definition POST_chat_send ::
  "'o service_api \<Rightarrow> send_env \<Rightarrow> send_faults \<Rightarrow> send_request \<Rightarrow> 'o world \<Rightarrow> response \<times> 'o world" where
  "POST_chat_send api env faults request w =
     (case send_json request of
        Inl e \<Rightarrow> (send_catch e, w)
      | Inr body \<Rightarrow>
          if nullish body
          then (send_catch (JsError
                  ''Cannot destructure property 'chatId' of 'body' as it is null.''), w)
          else
            let chatId = getProp body ''chatId'';
                userId = getProp body ''userId'';
                message = getProp body ''message''
            in
            if \<not> (truthy chatId \<and> truthy userId \<and> truthy message)
            then (json_response
                    [(''success'', JBool False), (''error'', JStr ''Missing required fields'')] 400, w)
            else if \<not> present (OPENAI_ASSISTANT_ID env)
            then (json_response
                    [(''success'', JBool False), (''error'', JStr ''Assistant not configured'')] 500, w)
            else
              (case user_insert_error faults of
                 Some e \<Rightarrow> (send_catch e, w)
               | None \<Rightarrow>
                   let w1 = w\<lparr>store := insert_message
                               \<lparr>m_chat_id = toStr chatId, m_role = ''user'',
                                m_content = toStr message, m_metadata = JObj []\<rparr> (store w)\<rparr>
                   in
                   (case (if chat_select_error faults \<noteq> None
                          then Inl (the (chat_select_error faults))
                          else (case single (filter (\<lambda>c. c_id c = toStr chatId) (chats (store w1))) of
                                  None \<Rightarrow> Inl (no_rows_error faults)
                                | Some chatRow \<Rightarrow> Inr chatRow)) of
                      Inl e \<Rightarrow> (send_catch e, w1)
                    | Inr chatRow \<Rightarrow>
                        (case thread_phase api faults chatRow chatId message w1 of
                           (Inl e, w2) \<Rightarrow> (send_catch e, w2)
                         | (Inr threadId, w2) \<Rightarrow>
                             (case run_phase api env faults (the (OPENAI_ASSISTANT_ID env))
                                     threadId chatId userId w2 of
                                (Inl e, w3) \<Rightarrow> (send_catch e, w3)
                              | (Inr r, w3) \<Rightarrow> finish_run api faults threadId chatId r w3)))))"

section \<open>The helpers of \<open>lib/openai.ts\<close>\<close>

text \<open>
  \<open>handleToolCalls\<close> of \<open>lib/openai.ts\<close>: the caller's handler runs each tool, over a world
  \<open>'w\<close> of its own; a parse error and a throwing handler each give an error output, and
  the loop goes on.
\<close>

fun handleToolCalls_lib ::
  "(string \<Rightarrow> thrown + jsval) \<Rightarrow> (jsval \<Rightarrow> string)
     \<Rightarrow> (string \<Rightarrow> jsval \<Rightarrow> 'w \<Rightarrow> (thrown + jsval) \<times> 'w)
     \<Rightarrow> tool_call list \<Rightarrow> 'w \<Rightarrow> tool_output list \<times> 'w" where
  "handleToolCalls_lib parse stringify handler [] w = ([], w)"
| "handleToolCalls_lib parse stringify handler (toolCall # rest) w =
     (case parse (tc_arguments toolCall) of
        Inl parseError \<Rightarrow>
          (case handleToolCalls_lib parse stringify handler rest w of
             (outs, w') \<Rightarrow>
               (\<lparr>tool_call_id = tc_id toolCall,
                 output_json = stringify
                   (JObj [(''error'', JStr ''Failed to parse function arguments'')])\<rparr> # outs, w'))
      | Inr functionArgs \<Rightarrow>
          (case handler (tc_name toolCall) functionArgs w of
             (res, w1) \<Rightarrow>
               (case handleToolCalls_lib parse stringify handler rest w1 of
                  (outs, w2) \<Rightarrow>
                    (\<lparr>tool_call_id = tc_id toolCall,
                      output_json = stringify
                        (case res of Inr out \<Rightarrow> out | Inl e \<Rightarrow> tool_error_output e)\<rparr> # outs, w2))))"

text \<open>
  The polling loop of \<open>runAssistant\<close> in \<open>lib/openai.ts\<close>, written twice there with the same
  \<open>startTime\<close>: before each wait it compares the time elapsed with \<open>maxWaitMs\<close>.
\<close>

function poll_deadline ::
  "'o service_api \<Rightarrow> nat \<Rightarrow> nat \<Rightarrow> string \<Rightarrow> run \<Rightarrow> 'o world \<Rightarrow> (thrown + run) \<times> 'o world" where
  "poll_deadline api startTime maxWaitTime threadId r w =
     (if pending r
      then
        if maxWaitTime * 1000 < clock w - startTime
        then (Inl (JsError (''Assistant run timed out after '' @ show_nat maxWaitTime @ '' seconds'')), w)
        else
          (case call_service (runs_retrieve api threadId (run_id r)) (sleep 1000 w) of
             (Inl e, w') \<Rightarrow> (Inl e, w')
           | (Inr r', w') \<Rightarrow> poll_deadline api startTime maxWaitTime threadId r' w')
      else (Inr r, w))"
  by pat_completeness auto
termination
  by (relation "measure (\<lambda>(api, startTime, maxWaitTime, threadId, r, w).
                   startTime + maxWaitTime * 1000 + 1000 - clock w)")
     (auto simp: call_service_def sleep_def split: prod.splits)

declare poll_deadline.simps [simp del]

record assistant_message =
  am_content :: string
  am_threadId :: string
  am_messageId :: string
  am_runId :: string

text \<open>The statements of \<open>runAssistant\<close> inside its \<open>try\<close>.\<close>

definition runAssistant_try ::
  "'o service_api \<Rightarrow> (string \<Rightarrow> thrown + jsval) \<Rightarrow> (jsval \<Rightarrow> string)
     \<Rightarrow> (string \<Rightarrow> jsval \<Rightarrow> 'o world \<Rightarrow> (thrown + jsval) \<times> 'o world) option
     \<Rightarrow> string \<Rightarrow> string \<Rightarrow> nat \<Rightarrow> 'o world \<Rightarrow> (thrown + assistant_message) \<times> 'o world" where
  "runAssistant_try api parse stringify toolCallHandler assistantId threadId maxWaitTime w =
     (case call_service (runs_create api threadId assistantId) w of
        (Inl e, w1) \<Rightarrow> (Inl e, w1)
      | (Inr r0, w1) \<Rightarrow>
          (case poll_deadline api (clock w1) maxWaitTime threadId r0 w1 of
             (Inl e, w2) \<Rightarrow> (Inl e, w2)
           | (Inr r1, w2) \<Rightarrow>
               (case (if run_status r1 = ''requires_action''
                      then
                        (case toolCallHandler of
                           None \<Rightarrow> (Inl (JsError ''Tool calls required but no handler provided''), w2)
                         | Some handler \<Rightarrow>
                             if (case run_tool_calls r1 of None \<Rightarrow> False
                                 | Some toolCalls \<Rightarrow> toolCalls \<noteq> [])
                             then
                               (case handleToolCalls_lib parse stringify handler
                                       (the (run_tool_calls r1)) w2 of
                                  (toolOutputs, w3) \<Rightarrow>
                                    (case call_service
                                            (runs_submitToolOutputs api threadId (run_id r1) toolOutputs)
                                            w3 of
                                       (Inl e, w4) \<Rightarrow> (Inl e, w4)
                                     | (Inr r2, w4) \<Rightarrow>
                                         poll_deadline api (clock w1) maxWaitTime threadId r2 w4))
                             else (Inr r1, w2))
                      else (Inr r1, w2)) of
                  (Inl e, w5) \<Rightarrow> (Inl e, w5)
                | (Inr r, w5) \<Rightarrow>
                    if run_status r = ''failed''
                    then (Inl (JsError (''Assistant run failed: ''
                            @ (if present (run_last_error r) then the (run_last_error r)
                               else ''Unknown error''))), w5)
                    else if run_status r = ''expired''
                    then (Inl (JsError ''Assistant run expired''), w5)
                    else if run_status r = ''cancelled''
                    then (Inl (JsError ''Assistant run was cancelled''), w5)
                    else if run_status r \<noteq> ''completed''
                    then (Inl (JsError (''Unexpected run status: '' @ run_status r)), w5)
                    else
                      (case call_service (messages_list api threadId) w5 of
                         (Inl e, w6) \<Rightarrow> (Inl e, w6)
                       | (Inr msgs, w6) \<Rightarrow>
                           (case msgs of
                              [] \<Rightarrow> (Inl (JsError ''No assistant response found''), w6)
                            | assistantMessage # older \<Rightarrow>
                                if tm_role assistantMessage \<noteq> ''assistant''
                                then (Inl (JsError ''No assistant response found''), w6)
                                else
                                  (case List.find
                                          (\<lambda>c. case c of TextPart t \<Rightarrow> True | OtherPart ty \<Rightarrow> False)
                                          (tm_content assistantMessage) of
                                     Some (TextPart responseContent) \<Rightarrow>
                                       (Inr \<lparr>am_content = responseContent,
                                             am_threadId = threadId,
                                             am_messageId = tm_id assistantMessage,
                                             am_runId = run_id r\<rparr>, w6)
                                   | _ \<Rightarrow>
                                       (Inl (JsError ''No text content in assistant response''),
                                        w6)))))))"

text \<open>\<open>runAssistant\<close> of \<open>lib/openai.ts\<close>, with \<open>maxWaitTime\<close> in seconds.\<close>

definition runAssistant ::
  "'o service_api \<Rightarrow> string option \<Rightarrow> (string \<Rightarrow> thrown + jsval) \<Rightarrow> (jsval \<Rightarrow> string)
     \<Rightarrow> (string \<Rightarrow> jsval \<Rightarrow> 'o world \<Rightarrow> (thrown + jsval) \<times> 'o world) option
     \<Rightarrow> string \<Rightarrow> nat \<Rightarrow> 'o world \<Rightarrow> (thrown + assistant_message) \<times> 'o world" where
  "runAssistant api assistantId parse stringify toolCallHandler threadId maxWaitTime w =
     (if \<not> present assistantId
      then (Inl (JsError ''OPENAI_ASSISTANT_ID environment variable is not set''), w)
      else
        case runAssistant_try api parse stringify toolCallHandler (the assistantId) threadId
               maxWaitTime w of
          (Inl e, w') \<Rightarrow>
            (Inl (JsError (''Failed to run assistant: ''
               @ (case e of JsError m \<Rightarrow> m | NonError m \<Rightarrow> ''Unknown error''))), w')
        | (Inr a, w') \<Rightarrow> (Inr a, w'))"

section \<open>The earlier \<open>runAssistant\<close> (part 003)\<close>

text \<open>
  Its loops have no bound, so each is a partial function: \<open>None\<close> is a call that never
  returns.
\<close>

partial_function (option) poll_forever ::
  "'o service_api \<Rightarrow> string \<Rightarrow> run \<Rightarrow> 'o world \<Rightarrow> ((thrown + run) \<times> 'o world) option" where
  "poll_forever api threadId r w =
     (if pending r
      then
        (case call_service (runs_retrieve api threadId (run_id r)) (sleep 1000 w) of
           (Inl e, w') \<Rightarrow> Some (Inl e, w')
         | (Inr r', w') \<Rightarrow> poll_forever api threadId r' w')
      else Some (Inr r, w))"

text \<open>The \<open>while (run.status === 'requires_action')\<close> loop with its placeholder tool outputs.\<close>

partial_function (option) tool_loop ::
  "'o service_api \<Rightarrow> (jsval \<Rightarrow> string) \<Rightarrow> string \<Rightarrow> run \<Rightarrow> 'o world
     \<Rightarrow> ((thrown + run) \<times> 'o world) option" where
  "tool_loop api stringify threadId r w =
     (if run_status r = ''requires_action''
      then
        (case (case run_tool_calls r of
                 None \<Rightarrow> (Inr r, w)
               | Some toolCalls \<Rightarrow>
                   call_service
                     (runs_submitToolOutputs api threadId (run_id r)
                        (map (\<lambda>toolCall.
                                \<lparr>tool_call_id = tc_id toolCall,
                                 output_json = stringify
                                   (JObj [(''result'', JStr ''Tool execution not implemented'')])\<rparr>)
                           toolCalls))
                     w) of
           (Inl e, w1) \<Rightarrow> Some (Inl e, w1)
         | (Inr r1, w1) \<Rightarrow>
             Option.bind (poll_forever api threadId r1 w1)
               (\<lambda>res. case res of
                         (Inl e, w2) \<Rightarrow> Some (Inl e, w2)
                       | (Inr r2, w2) \<Rightarrow> tool_loop api stringify threadId r2 w2))
      else Some (Inr r, w))"

definition runAssistant_003 ::
  "'o service_api \<Rightarrow> string option \<Rightarrow> (jsval \<Rightarrow> string) \<Rightarrow> string \<Rightarrow> 'o world
     \<Rightarrow> ((thrown + string) \<times> 'o world) option" where
  "runAssistant_003 api assistantId stringify threadId w =
     (if \<not> present assistantId
      then Some (Inl (JsError ''OPENAI_ASSISTANT_ID environment variable is not set''), w)
      else
        case call_service (runs_create api threadId (the assistantId)) w of
          (Inl e, w1) \<Rightarrow> Some (Inl e, w1)
        | (Inr r0, w1) \<Rightarrow>
            Option.bind (poll_forever api threadId r0 w1)
              (\<lambda>res. case res of
                 (Inl e, w2) \<Rightarrow> Some (Inl e, w2)
               | (Inr r1, w2) \<Rightarrow>
                   Option.bind (tool_loop api stringify threadId r1 w2)
                     (\<lambda>res'. case res' of
                        (Inl e, w3) \<Rightarrow> Some (Inl e, w3)
                      | (Inr r, w3) \<Rightarrow>
                          if run_status r = ''completed''
                          then
                            (case call_service (messages_list api threadId) w3 of
                               (Inl e, w4) \<Rightarrow> Some (Inl e, w4)
                             | (Inr msgs, w4) \<Rightarrow>
                                 (case msgs of
                                    lastMessage # older \<Rightarrow>
                                      if tm_role lastMessage = ''assistant''
                                      then
                                        (case tm_content lastMessage of
                                           [] \<Rightarrow>
                                             Some (Inl (JsError
                                               ''Cannot read properties of undefined (reading 'type')''), w4)
                                         | TextPart t # parts \<Rightarrow> Some (Inr t, w4)
                                         | OtherPart ty # parts \<Rightarrow>
                                             Some (Inl (JsError
                                               (''Run failed with status: '' @ run_status r)), w4))
                                      else Some (Inl (JsError
                                             (''Run failed with status: '' @ run_status r)), w4)
                                  | [] \<Rightarrow> Some (Inl (JsError
                                             (''Run failed with status: '' @ run_status r)), w4)))
                          else Some (Inl (JsError
                                 (''Run failed with status: '' @ run_status r)), w3))))"

section \<open>A scripted service and sample requests\<close>

text \<open>
  A service whose state is the list of runs it will still return, one per call of
  \<open>create\<close>, \<open>retrieve\<close> or \<open>submitToolOutputs\<close>; when the list is used up the call throws.
\<close>

fun next_run :: "run list \<Rightarrow> (thrown + run) \<times> run list" where
  "next_run [] = (Inl (JsError ''service unavailable''), [])"
| "next_run (r # rs) = (Inr r, rs)"

definition scripted_api :: "thread_message list \<Rightarrow> (run list) service_api" where
  "scripted_api reply =
     \<lparr>threads_create = (\<lambda>s. (Inr ''thread-1'', s)),
      messages_create = (\<lambda>threadId content s. (None, s)),
      runs_create = (\<lambda>threadId assistantId s. next_run s),
      runs_retrieve = (\<lambda>threadId runId s. next_run s),
      runs_submitToolOutputs = (\<lambda>threadId runId outs s. next_run s),
      messages_list = (\<lambda>threadId s. (Inr reply, s))\<rparr>"

definition mk_run :: "string \<Rightarrow> tool_call list option \<Rightarrow> run" where
  "mk_run st tcs = \<lparr>run_id = ''run-1'', run_status = st, run_tool_calls = tcs, run_last_error = None\<rparr>"

definition ex_reply :: "thread_message list" where
  "ex_reply = [\<lparr>tm_id = ''msg-1'', tm_role = ''assistant'', tm_content = [TextPart ''Done.'']\<rparr>]"

definition ex_parse :: "string \<Rightarrow> thrown + jsval" where
  "ex_parse s = (if s = ''{}'' then Inr (JObj []) else Inl (JsError ''Unexpected end of JSON input''))"

definition ex_stringify :: "jsval \<Rightarrow> string" where
  "ex_stringify v = (case v of JObj kvs \<Rightarrow> ''{'' @ join_comma (map fst kvs) @ ''}'' | _ \<Rightarrow> toStr v)"

definition ex_send_env :: send_env where
  "ex_send_env =
     \<lparr>OPENAI_ASSISTANT_ID = Some ''asst-1'', parse_arguments = ex_parse,
      JSON_stringify = ex_stringify,
      fetch_booking_start = (\<lambda>body d. (FetchFailed ''fetch failed'', d))\<rparr>"

definition ex_send_faults :: send_faults where
  "ex_send_faults =
     \<lparr>user_insert_error = None, chat_select_error = None,
      no_rows_error = NonError ''JSON object requested, multiple (or no) rows returned'',
      thread_update_error = None, booking_select_error = None, assistant_insert_error = None\<rparr>"

definition ex_send_request :: "string \<Rightarrow> send_request" where
  "ex_send_request u =
     \<lparr>send_json = Inr (JObj [(''chatId'', JStr ''c1''), (''userId'', JStr u),
                            (''message'', JStr ''Book a table'')])\<rparr>"

text \<open>A world that starts at time 0 and whose service answers at once.\<close>

definition ex_world :: "run list \<Rightarrow> (run list) world" where
  "ex_world script = \<lparr>store = ex_db, service = script, clock = 0, latency = (\<lambda>s. 0)\<rparr>"

definition ex_tool_calls :: "tool_call list" where
  "ex_tool_calls =
     [\<lparr>tc_id = ''t1'', tc_name = ''get_booking_status'', tc_arguments = ''{bookingId:''\<rparr>,
      \<lparr>tc_id = ''t2'', tc_name = ''get_weather'', tc_arguments = ''{}''\<rparr>]"

text \<open>A service whose runs stay queued for ever.\<close>

definition queued_api :: "unit service_api" where
  "queued_api =
     \<lparr>threads_create = (\<lambda>s. (Inr ''thread-1'', s)),
      messages_create = (\<lambda>threadId content s. (None, s)),
      runs_create = (\<lambda>threadId assistantId s. (Inr (mk_run ''queued'' None), s)),
      runs_retrieve = (\<lambda>threadId runId s. (Inr (mk_run ''queued'' None), s)),
      runs_submitToolOutputs = (\<lambda>threadId runId outs s. (Inr (mk_run ''queued'' None), s)),
      messages_list = (\<lambda>threadId s. (Inr [], s))\<rparr>"

text \<open>
  A script of non-terminal statuses: queued 59 times, then a run that requires action
  with one tool call, then queued again.
\<close>

definition ex_long_script :: "run list" where
  "ex_long_script =
     mk_run ''queued'' None # replicate 58 (mk_run ''queued'' None)
       @ mk_run ''requires_action'' (Some [\<lparr>tc_id = ''t2'', tc_name = ''get_weather'', tc_arguments = ''{}''\<rparr>])
       # mk_run ''queued'' None # replicate 60 (mk_run ''queued'' None)"

text \<open>A run that asks for the booking tool, then completes.\<close>

definition ex_booking_script :: "run list" where
  "ex_booking_script =
     [mk_run ''requires_action''
        (Some [\<lparr>tc_id = ''t1'', tc_name = ''start_booking_call'', tc_arguments = ''{}''\<rparr>]),
      mk_run ''completed'' None]"

section \<open>Properties of the JavaScript values and of the relay's helpers\<close>

lemmas callback_defs =
  POST_booking_callback_def find_booking_def update_booking_def insert_message_def
  json_response_def jsonProps_def callback_catch_def nullish_def bookingStatus_def
  result_payload_def objectSpread_def Let_def

lemmas ex_defs =
  ex_details_def ex_booking_def ex_db_def ex_callback_env_def ex_notification_def
  ex_request_def no_faults_def

lemma map_of_objectSpread:
  "map_of (objectSpread base v) = map_of base ++ map_of (ownProps v)"
proof -
  have "map_of (foldr (\<lambda>kv acc. AList.update (fst kv) (snd kv) acc) kvs base)
        = map_of base ++ map_of kvs" for kvs
    by (induction kvs) (auto simp: update_conv' fun_eq_iff map_add_def)
  then show ?thesis by (simp add: objectSpread_def)
qed

lemma distinct_objectSpread:
  "distinct (map fst base) \<Longrightarrow> distinct (map fst (objectSpread base v))"
proof -
  have "distinct (map fst base) \<Longrightarrow>
        distinct (map fst (foldr (\<lambda>kv acc. AList.update (fst kv) (snd kv) acc) kvs base))" for kvs
    by (induction kvs) (auto simp: distinct_update)
  then show "distinct (map fst base) \<Longrightarrow> distinct (map fst (objectSpread base v))"
    by (simp add: objectSpread_def)
qed

lemma map_of_jsonProps:
  "distinct (map fst kvs) \<Longrightarrow>
   map_of (jsonProps kvs) k = (if map_of kvs k = Some JUndefined then None else map_of kvs k)"
proof (induction kvs)
  case Nil
  then show ?case by (simp add: jsonProps_def)
next
  case (Cons kv kvs)
  obtain a b where kv: "kv = (a, b)" by (cases kv)
  from Cons.prems kv have notin: "a \<notin> fst ` set kvs" and d: "distinct (map fst kvs)" by auto
  from notin have none: "map_of kvs a = None" by (simp add: map_of_eq_None_iff)
  have none': "map_of (jsonProps kvs) a = None"
    using notin by (auto simp: map_of_eq_None_iff jsonProps_def)
  show ?case
  proof (cases "k = a")
    case True
    then show ?thesis using kv none' by (simp add: jsonProps_def)
  next
    case False
    then show ?thesis using kv Cons.IH [OF d] by (simp add: jsonProps_def)
  qed
qed

lemma getProp_jsonProps:
  "distinct (map fst kvs) \<Longrightarrow> getProp (JObj (jsonProps kvs)) k = getProp (JObj kvs) k"
  by (simp add: map_of_jsonProps split: option.splits)

lemma getProp_result_payload:
  "getProp (result_payload transcript duration reason result) k =
     (case map_of (ownProps result) k of
        Some v \<Rightarrow> v
      | None \<Rightarrow>
          if k = ''transcript'' then transcript
          else if k = ''duration'' then duration
          else if k = ''reason'' then reason
          else JUndefined)"
proof -
  have d: "distinct (map fst (objectSpread
       [(''transcript'', transcript), (''duration'', duration), (''reason'', reason)] result))"
    by (rule distinct_objectSpread) simp
  show ?thesis
    unfolding result_payload_def getProp_jsonProps [OF d]
    by (simp add: map_of_objectSpread map_add_def split: option.splits)
qed

section \<open>Properties of the call outcome relay\<close>

lemma callback_after_lookup:
  assumes "passes_gate env request"
    and "JSON_parse env (body_text request) = Inr cb"
    and "\<not> nullish cb"
    and "truthy (getProp cb ''callId'')"
  shows "POST_booking_callback env faults request d =
    (case find_booking faults d (getProp cb ''callId'') of
       None \<Rightarrow>
         (json_response [(''success'', JBool False), (''error'', JStr ''Booking not found'')] 404, d)
     | Some booking \<Rightarrow>
         (case update_error faults of
            Some e \<Rightarrow> (callback_catch e, d)
          | None \<Rightarrow>
              (case insert_error faults of
                 Some e \<Rightarrow>
                   (callback_catch e,
                    update_booking (b_id booking) (bookingStatus (getProp cb ''status''))
                      (result_payload (getProp cb ''transcript'') (getProp cb ''duration'')
                         (getProp cb ''reason'') (getProp cb ''result'')) d)
               | None \<Rightarrow>
                   (json_response [(''success'', JBool True)] 200,
                    insert_message
                      \<lparr>m_chat_id = b_chat_id booking, m_role = ''system'',
                       m_content = messageContent (getProp cb ''status'') (b_details booking)
                                     (getProp cb ''transcript'') (getProp cb ''reason''),
                       m_metadata = JObj (jsonProps
                         [(''callId'', getProp cb ''callId''),
                          (''bookingId'', JStr (b_id booking)),
                          (''status'', getProp cb ''status'')])\<rparr>
                      (update_booking (b_id booking) (bookingStatus (getProp cb ''status''))
                         (result_payload (getProp cb ''transcript'') (getProp cb ''duration'')
                            (getProp cb ''reason'') (getProp cb ''result'')) d)))))"
proof -
  have g: "(present (WEBHOOK_SECRET env) \<and> present (x_webhook_signature request)
         \<and> the (x_webhook_signature request)
             \<noteq> createHmac_sha256_hex env (the (WEBHOOK_SECRET env)) (body_text request)) = False"
    using assms(1) by (simp add: passes_gate_def)
  show ?thesis
    by (simp add: POST_booking_callback_def Let_def g assms(2-4) split: option.splits)
qed

text \<open>
  C1 as stated (every request is rejected with 401 when the secret is not configured, and
  nothing is processed without a successful check) fails: with no \<open>WEBHOOK_SECRET\<close> the
  handler skips the check, updates the booking and inserts the message.
\<close>

theorem callback_secret_unset_counterexample:
  "WEBHOOK_SECRET (ex_callback_env None (ex_notification ''completed'')) = None
   \<and> resp_status (fst (POST_booking_callback (ex_callback_env None (ex_notification ''completed''))
         no_faults (ex_request None) ex_db)) = 200
   \<and> map b_status (bookings (snd (POST_booking_callback
         (ex_callback_env None (ex_notification ''completed'')) no_faults (ex_request None) ex_db)))
       = [''completed'']
   \<and> length (messages (snd (POST_booking_callback
         (ex_callback_env None (ex_notification ''completed'')) no_faults (ex_request None) ex_db)))
       = 1"
  by (simp add: callback_defs ex_defs)

text \<open>
  C1, amended: when a secret is configured and the request carries a signature header, the
  relay answers 401 "Invalid signature" and writes nothing if the header differs from the
  hex HMAC-SHA256 of the raw body under the secret, and never answers 401 if it is equal;
  when no secret is configured the relay never answers 401 and handles the notification
  whatever the signature header is.
\<close>

theorem callback_signature_check:
  "(present (WEBHOOK_SECRET env) \<and> present (x_webhook_signature request)
      \<and> the (x_webhook_signature request)
          \<noteq> createHmac_sha256_hex env (the (WEBHOOK_SECRET env)) (body_text request)
    \<longrightarrow> POST_booking_callback env faults request d =
          (json_response [(''success'', JBool False), (''error'', JStr ''Invalid signature'')] 401, d))
   \<and> (present (WEBHOOK_SECRET env) \<and> present (x_webhook_signature request)
      \<and> the (x_webhook_signature request)
          = createHmac_sha256_hex env (the (WEBHOOK_SECRET env)) (body_text request)
    \<longrightarrow> resp_status (fst (POST_booking_callback env faults request d)) \<noteq> 401)
   \<and> (\<not> present (WEBHOOK_SECRET env)
    \<longrightarrow> resp_status (fst (POST_booking_callback env faults request d)) \<noteq> 401
        \<and> POST_booking_callback env faults request d =
            POST_booking_callback env faults (request\<lparr>x_webhook_signature := sig'\<rparr>) d)"
  by (simp add: POST_booking_callback_def Let_def json_response_def callback_catch_def
           split: sum.splits option.splits)

theorem callback_signature_check_witness:
  "POST_booking_callback (ex_callback_env (Some ''k'') (ex_notification ''completed'')) no_faults
     (ex_request (Some ''forged'')) ex_db
     = (json_response [(''success'', JBool False), (''error'', JStr ''Invalid signature'')] 401, ex_db)
   \<and> resp_status (fst (POST_booking_callback
        (ex_callback_env (Some ''k'') (ex_notification ''completed'')) no_faults
        (ex_request (Some ''mac(k,body)'')) ex_db)) \<noteq> 401
   \<and> resp_status (fst (POST_booking_callback
        (ex_callback_env None (ex_notification ''completed'')) no_faults
        (ex_request (Some ''forged'')) ex_db)) \<noteq> 401"
  using callback_signature_check
      [of "ex_callback_env (Some ''k'') (ex_notification ''completed'')"
          "ex_request (Some ''forged'')" no_faults ex_db]
    callback_signature_check
      [of "ex_callback_env (Some ''k'') (ex_notification ''completed'')"
          "ex_request (Some ''mac(k,body)'')" no_faults ex_db]
    callback_signature_check
      [of "ex_callback_env None (ex_notification ''completed'')"
          "ex_request (Some ''forged'')" no_faults ex_db]
  by (simp add: ex_callback_env_def ex_request_def)

text \<open>
  C2 as stated (every previously set result key that the notification's result object does
  not overwrite is preserved) fails: a booking whose stored result has the key
  \<open>confirmation\<close> loses it on a notification that has no result object at all.
\<close>

theorem callback_stored_result_counterexample:
  "getProp (b_result ex_booking) ''confirmation'' = JStr ''ABC123''
   \<and> getProp (ex_notification ''completed'') ''result'' = JUndefined
   \<and> map (\<lambda>b. getProp (b_result b) ''confirmation'')
        (bookings (snd (POST_booking_callback
           (ex_callback_env (Some ''k'') (ex_notification ''completed'')) no_faults
           (ex_request (Some ''mac(k,body)'')) ex_db))) = [JUndefined]"
  by (simp add: callback_defs ex_defs)

text \<open>
  C2, amended: for a notification that passes the gate and whose call identifier matches
  exactly one booking, when the store performs the update, that booking gets status
  \<open>completed\<close> if the notification's status is the string "completed" and \<open>failed\<close>
  otherwise, and its result payload is replaced by a new object: the properties of the
  notification's result object, and besides them \<open>transcript\<close>, \<open>duration\<close> and \<open>reason\<close>
  of the notification where the result object has no property of that name. No property
  of the payload stored before is carried over.
\<close>

theorem callback_persists_outcome:
  assumes "passes_gate env request"
    and "JSON_parse env (body_text request) = Inr cb"
    and "\<not> nullish cb"
    and "truthy (getProp cb ''callId'')"
    and "select_error faults = None"
    and "filter (\<lambda>b. b_call_id b = Some (toStr (getProp cb ''callId''))) (bookings d) = [booking]"
    and "update_error faults = None"
  shows "bookings (snd (POST_booking_callback env faults request d)) =
      map (\<lambda>b. if b_id b = b_id booking
               then b\<lparr>b_status := (if getProp cb ''status'' = JStr ''completed''
                                    then ''completed'' else ''failed''),
                      b_result := result_payload (getProp cb ''transcript'')
                                    (getProp cb ''duration'') (getProp cb ''reason'')
                                    (getProp cb ''result'')\<rparr>
               else b) (bookings d)
    \<and> (\<forall>k. getProp (result_payload (getProp cb ''transcript'') (getProp cb ''duration'')
                      (getProp cb ''reason'') (getProp cb ''result'')) k =
          (case map_of (ownProps (getProp cb ''result'')) k of
             Some v \<Rightarrow> v
           | None \<Rightarrow>
               if k = ''transcript'' \<or> k = ''duration'' \<or> k = ''reason''
               then getProp cb k else JUndefined))"
proof -
  have f: "find_booking faults d (getProp cb ''callId'') = Some booking"
    using assms(5,6) by (simp add: find_booking_def)
  have "bookings (snd (POST_booking_callback env faults request d)) =
        bookings (update_booking (b_id booking) (bookingStatus (getProp cb ''status''))
          (result_payload (getProp cb ''transcript'') (getProp cb ''duration'')
             (getProp cb ''reason'') (getProp cb ''result'')) d)"
    using callback_after_lookup [OF assms(1-4), of faults d] f assms(7)
    by (simp add: insert_message_def split: option.splits)
  then have "bookings (snd (POST_booking_callback env faults request d)) =
      map (\<lambda>b. if b_id b = b_id booking
               then b\<lparr>b_status := (if getProp cb ''status'' = JStr ''completed''
                                    then ''completed'' else ''failed''),
                      b_result := result_payload (getProp cb ''transcript'')
                                    (getProp cb ''duration'') (getProp cb ''reason'')
                                    (getProp cb ''result'')\<rparr>
               else b) (bookings d)"
    by (simp add: update_booking_def bookingStatus_def)
  moreover have "\<forall>k. getProp (result_payload (getProp cb ''transcript'') (getProp cb ''duration'')
                      (getProp cb ''reason'') (getProp cb ''result'')) k =
          (case map_of (ownProps (getProp cb ''result'')) k of
             Some v \<Rightarrow> v
           | None \<Rightarrow>
               if k = ''transcript'' \<or> k = ''duration'' \<or> k = ''reason''
               then getProp cb k else JUndefined)"
    by (auto simp: getProp_result_payload split: option.splits)
  ultimately show ?thesis by blast
qed

theorem callback_persists_outcome_witness:
  "bookings (snd (POST_booking_callback
      (ex_callback_env (Some ''k'') (ex_notification ''busy'')) no_faults
      (ex_request (Some ''mac(k,body)'')) ex_db)) =
     [ex_booking\<lparr>b_status := ''failed'',
        b_result := result_payload JUndefined JUndefined JUndefined JUndefined\<rparr>]"
  using callback_persists_outcome
    [of "ex_callback_env (Some ''k'') (ex_notification ''busy'')"
        "ex_request (Some ''mac(k,body)'')" "ex_notification ''busy''" no_faults ex_db ex_booking]
  by (simp add: passes_gate_def ex_defs nullish_def)

text \<open>
  The other handler, once the secret, the body and the call identifier are accepted:
  a missing status is answered with 400, and with a status and a matching booking the
  answer is 200 as soon as the update is done, whatever the insert returns.
\<close>

lemma secret_callback_after_checks:
  assumes "present (WEBHOOK_SECRET env)" and "x_webhook_secret request = WEBHOOK_SECRET env"
    and "JSON_parse env (secret_body_text request) = Inr body" and "\<not> nullish body"
    and "truthy (getProp body ''callId'')"
  shows "truthy (getProp body ''status'')
         \<Longrightarrow> find_booking faults d (getProp body ''callId'') = Some booking
         \<Longrightarrow> update_error faults = None
         \<Longrightarrow> fst (POST_booking_callback_secret env faults request d)
             = json_response [(''success'', JBool True)] 200"
    and "\<not> truthy (getProp body ''status'')
         \<Longrightarrow> POST_booking_callback_secret env faults request d
             = (json_response
                  [(''error'', JStr ''Missing required fields: callId and status'')] 400, d)"
  using assms by (simp_all add: POST_booking_callback_secret_def Let_def)

text \<open>
  C3 (when the booking update succeeds and the insertion of the system message fails, the
  relay still reports success). The handler rethrows the insertion error: with the update
  done and the insert failing, the answer is 500 with \<open>success: false\<close>, and the booking
  keeps its new status. The other handler answers 200 whether the insert fails or not
  (\<open>secret_callback_after_checks\<close>).
\<close>

theorem callback_insert_failure_reported:
  "POST_booking_callback (ex_callback_env None (ex_notification ''completed''))
     (no_faults\<lparr>insert_error := Some (JsError ''connection reset'')\<rparr>) (ex_request None) ex_db
   = (json_response [(''success'', JBool False), (''error'', JStr ''connection reset'')] 500,
      ex_db\<lparr>bookings := [ex_booking\<lparr>b_status := ''completed'', b_result := JObj []\<rparr>]\<rparr>)"
  by (simp add: callback_defs ex_defs)

text \<open>
  C6 (the relay requires the call identifier and the outcome status, and answers 400 when
  either is absent). The handler tests \<open>callId\<close> only. A notification that carries a call
  identifier and no status is processed: the booking is written as failed, a system message
  ending in "status: undefined." is inserted and the answer is 200. The other handler
  answers 400 there (\<open>secret_callback_after_checks\<close>).
\<close>

theorem callback_missing_status_processed:
  "POST_booking_callback (ex_callback_env None (JObj [(''callId'', JStr ''call-1'')])) no_faults
     (ex_request None) ex_db
   = (json_response [(''success'', JBool True)] 200,
      \<lparr>bookings = [ex_booking\<lparr>b_status := ''failed'', b_result := JObj []\<rparr>],
       messages = [\<lparr>m_chat_id = ''c1'', m_role = ''system'',
          m_content = generic_template ''The Garden Restaurant'' ''undefined'',
          m_metadata = JObj [(''callId'', JStr ''call-1''), (''bookingId'', JStr ''b1'')]\<rparr>],
       chats = chats ex_db\<rparr>)"
  by (simp add: callback_defs ex_defs messageContent_def businessName_of_def js_or_def)

text \<open>
  C7 as stated (voicemail has a template of its own) fails: the message for status
  voicemail is the generic template.
\<close>

theorem callback_voicemail_counterexample:
  "map m_content (messages (snd (POST_booking_callback
      (ex_callback_env (Some ''k'') (ex_notification ''voicemail'')) no_faults
      (ex_request (Some ''mac(k,body)'')) ex_db)))
   = [generic_template ''The Garden Restaurant'' ''voicemail'']"
  by (simp add: callback_defs ex_defs messageContent_def businessName_of_def js_or_def)

lemma messageContent_heads:
  "take 6 (messageContent (JStr ''completed'') d t r)
     = [CHR 0xE2, CHR 0x9C, CHR 0x85, CHR '' '', CHR ''G'', CHR ''r'']"
  "take 6 (messageContent (JStr ''failed'') d t r)
     = [CHR 0xE2, CHR 0x9D, CHR 0x8C, CHR '' '', CHR ''W'', CHR ''e'']"
  "take 9 (messageContent (JStr ''busy'') d t r)
     = [CHR 0xF0, CHR 0x9F, CHR 0x93, CHR 0xB5, CHR '' '', CHR ''T'', CHR ''h'', CHR ''e'', CHR '' '']"
  "take 9 (messageContent (JStr ''no-answer'') d t r)
     = [CHR 0xF0, CHR 0x9F, CHR 0x93, CHR 0xB5, CHR '' '', CHR ''T'', CHR ''h'', CHR ''e'', CHR ''r'']"
  "take 6 (generic_template n s)
     = [CHR 0xE2, CHR 0x84, CHR 0xB9, CHR 0xEF, CHR 0xB8, CHR 0x8F]"
  by (simp_all add: messageContent_def generic_template_def Let_def)

lemma neq_by_take: "take n xs \<noteq> take n ys \<Longrightarrow> xs \<noteq> ys"
  by auto

text \<open>
  C7, amended: the system message of a notification that matches a booking is built by
  \<open>messageContent\<close>; each of the four status values completed, failed, busy and no-answer
  has a template of its own (the four texts differ from one another and from every generic
  text, whatever the booking details, transcript and reason are), and every other status
  value, voicemail included, gets the generic template ending in "status: X.".
\<close>

theorem callback_message_templates:
  "(passes_gate env request \<and> JSON_parse env (body_text request) = Inr cb \<and> \<not> nullish cb
      \<and> truthy (getProp cb ''callId'')
      \<and> find_booking faults db0 (getProp cb ''callId'') = Some booking
      \<and> update_error faults = None \<and> insert_error faults = None
      \<longrightarrow> map m_content (messages (snd (POST_booking_callback env faults request db0)))
          = map m_content (messages db0)
            @ [messageContent (getProp cb ''status'') (b_details booking)
                 (getProp cb ''transcript'') (getProp cb ''reason'')])
   \<and> (s \<noteq> JStr ''completed'' \<and> s \<noteq> JStr ''failed'' \<and> s \<noteq> JStr ''busy'' \<and> s \<noteq> JStr ''no-answer''
      \<longrightarrow> messageContent s d t r = generic_template (toStr (businessName_of d)) (toStr s))
   \<and> messageContent (JStr ''completed'') d t r \<noteq> messageContent (JStr ''failed'') d' t' r'
   \<and> messageContent (JStr ''completed'') d t r \<noteq> messageContent (JStr ''busy'') d' t' r'
   \<and> messageContent (JStr ''completed'') d t r \<noteq> messageContent (JStr ''no-answer'') d' t' r'
   \<and> messageContent (JStr ''failed'') d t r \<noteq> messageContent (JStr ''busy'') d' t' r'
   \<and> messageContent (JStr ''failed'') d t r \<noteq> messageContent (JStr ''no-answer'') d' t' r'
   \<and> messageContent (JStr ''busy'') d t r \<noteq> messageContent (JStr ''no-answer'') d' t' r'
   \<and> messageContent (JStr ''completed'') d t r \<noteq> generic_template n x
   \<and> messageContent (JStr ''failed'') d t r \<noteq> generic_template n x
   \<and> messageContent (JStr ''busy'') d t r \<noteq> generic_template n x
   \<and> messageContent (JStr ''no-answer'') d t r \<noteq> generic_template n x"
proof -
  have p: "passes_gate env request \<and> JSON_parse env (body_text request) = Inr cb \<and> \<not> nullish cb
      \<and> truthy (getProp cb ''callId'')
      \<and> find_booking faults db0 (getProp cb ''callId'') = Some booking
      \<and> update_error faults = None \<and> insert_error faults = None
      \<longrightarrow> map m_content (messages (snd (POST_booking_callback env faults request db0)))
          = map m_content (messages db0)
            @ [messageContent (getProp cb ''status'') (b_details booking)
                 (getProp cb ''transcript'') (getProp cb ''reason'')]"
  proof
    assume h: "passes_gate env request \<and> JSON_parse env (body_text request) = Inr cb
      \<and> \<not> nullish cb \<and> truthy (getProp cb ''callId'')
      \<and> find_booking faults db0 (getProp cb ''callId'') = Some booking
      \<and> update_error faults = None \<and> insert_error faults = None"
    then have "passes_gate env request" "JSON_parse env (body_text request) = Inr cb"
      "\<not> nullish cb" "truthy (getProp cb ''callId'')"
      by simp_all
    from callback_after_lookup [OF this, of faults db0] h
    show "map m_content (messages (snd (POST_booking_callback env faults request db0)))
          = map m_content (messages db0)
            @ [messageContent (getProp cb ''status'') (b_details booking)
                 (getProp cb ''transcript'') (getProp cb ''reason'')]"
      by (simp add: insert_message_def update_booking_def)
  qed
  have g: "s \<noteq> JStr ''completed'' \<and> s \<noteq> JStr ''failed'' \<and> s \<noteq> JStr ''busy'' \<and> s \<noteq> JStr ''no-answer''
      \<longrightarrow> messageContent s d t r = generic_template (toStr (businessName_of d)) (toStr s)"
    by (simp add: messageContent_def Let_def)
  have c1: "messageContent (JStr ''completed'') d t r \<noteq> messageContent (JStr ''failed'') d' t' r'"
    by (rule neq_by_take [of 6]) (simp only: messageContent_heads, simp)
  have c2: "messageContent (JStr ''completed'') d t r \<noteq> messageContent (JStr ''busy'') d' t' r'"
    by (rule neq_by_take [of 1]) (simp add: messageContent_def Let_def)
  have c3: "messageContent (JStr ''completed'') d t r \<noteq> messageContent (JStr ''no-answer'') d' t' r'"
    by (rule neq_by_take [of 1]) (simp add: messageContent_def Let_def)
  have c4: "messageContent (JStr ''failed'') d t r \<noteq> messageContent (JStr ''busy'') d' t' r'"
    by (rule neq_by_take [of 1]) (simp add: messageContent_def Let_def)
  have c5: "messageContent (JStr ''failed'') d t r \<noteq> messageContent (JStr ''no-answer'') d' t' r'"
    by (rule neq_by_take [of 1]) (simp add: messageContent_def Let_def)
  have c6: "messageContent (JStr ''busy'') d t r \<noteq> messageContent (JStr ''no-answer'') d' t' r'"
    by (rule neq_by_take [of 9]) (simp only: messageContent_heads, simp)
  have g1: "messageContent (JStr ''completed'') d t r \<noteq> generic_template n x"
    by (rule neq_by_take [of 6]) (simp only: messageContent_heads, simp)
  have g2: "messageContent (JStr ''failed'') d t r \<noteq> generic_template n x"
    by (rule neq_by_take [of 6]) (simp only: messageContent_heads, simp)
  have g3: "messageContent (JStr ''busy'') d t r \<noteq> generic_template n x"
    by (rule neq_by_take [of 1]) (simp add: messageContent_def generic_template_def Let_def)
  have g4: "messageContent (JStr ''no-answer'') d t r \<noteq> generic_template n x"
    by (rule neq_by_take [of 1]) (simp add: messageContent_def generic_template_def Let_def)
  show ?thesis using p g c1 c2 c3 c4 c5 c6 g1 g2 g3 g4 by blast
qed

theorem callback_message_templates_witness:
  "map m_content (messages (snd (POST_booking_callback
      (ex_callback_env (Some ''k'') (ex_notification ''ended'')) no_faults
      (ex_request (Some ''mac(k,body)'')) ex_db)))
     = [messageContent (JStr ''ended'') ex_details JUndefined JUndefined]
   \<and> messageContent (JStr ''ended'') ex_details JUndefined JUndefined
     = generic_template ''The Garden Restaurant'' ''ended''"
  using callback_message_templates
    [of "ex_callback_env (Some ''k'') (ex_notification ''ended'')"
        "ex_request (Some ''mac(k,body)'')" "ex_notification ''ended''" no_faults ex_db ex_booking
        "JStr ''ended''" ex_details JUndefined JUndefined]
  by (simp add: passes_gate_def nullish_def find_booking_def businessName_of_def js_or_def ex_defs)

text \<open>
  C9: a notification that passes the signature gate and carries a call identifier that no
  booking has is answered with 404 "Booking not found", and the store is left as it was:
  no booking and no message is written.
\<close>

theorem callback_unknown_call_not_found:
  assumes "passes_gate env request"
    and "JSON_parse env (body_text request) = Inr cb"
    and "\<not> nullish cb"
    and "truthy (getProp cb ''callId'')"
    and "\<forall>b \<in> set (bookings d). b_call_id b \<noteq> Some (toStr (getProp cb ''callId''))"
  shows "POST_booking_callback env faults request d =
    (json_response [(''success'', JBool False), (''error'', JStr ''Booking not found'')] 404, d)"
proof -
  have "filter (\<lambda>b. b_call_id b = Some (toStr (getProp cb ''callId''))) (bookings d) = []"
    using assms(5) by (simp add: filter_empty_conv)
  then have "find_booking faults d (getProp cb ''callId'') = None"
    by (simp add: find_booking_def)
  then show ?thesis
    using callback_after_lookup [OF assms(1-4)] by simp
qed

theorem callback_unknown_call_not_found_witness:
  "POST_booking_callback (ex_callback_env (Some ''k'') (ex_notification ''completed'')) no_faults
     (ex_request (Some ''mac(k,body)'')) (ex_db\<lparr>bookings := []\<rparr>) =
    (json_response [(''success'', JBool False), (''error'', JStr ''Booking not found'')] 404,
     ex_db\<lparr>bookings := []\<rparr>)"
  using callback_unknown_call_not_found
    [of "ex_callback_env (Some ''k'') (ex_notification ''completed'')"
        "ex_request (Some ''mac(k,body)'')" "ex_notification ''completed''"
        "ex_db\<lparr>bookings := []\<rparr>" no_faults]
  by (simp add: passes_gate_def ex_defs nullish_def)

section \<open>Properties of the phone number patterns and of booking initiation\<close>

lemma regex_test_last:
  "lo \<le> hi \<Longrightarrow>
   regex_test [(a, lo, hi)] s = (list_all (atom_matches a) s \<and> lo \<le> length s \<and> length s \<le> hi)"
proof (induction s arbitrary: lo hi)
  case Nil
  then show ?case by simp
next
  case (Cons c cs)
  show ?case
  proof (cases "0 < lo")
    case True
    with Cons.prems have "lo - 1 \<le> hi - 1" by simp
    from Cons.IH [OF this] True Cons.prems show ?thesis by auto
  next
    case False
    have "0 \<le> hi - 1" by simp
    from Cons.IH [OF this] False show ?thesis by (cases hi) auto
  qed
qed

lemma regex_test_one:
  "regex_test ((a, Suc 0, Suc 0) # rs) s = (case s of [] \<Rightarrow> False | c # cs \<Rightarrow> atom_matches a c \<and> regex_test rs cs)"
  by (cases s) simp_all

lemma of_char_zero_digit: "(of_char c = (48::nat)) = (c = CHR ''0'')"
proof -
  have "(of_char c = (of_char CHR ''0'' :: nat)) = (c = CHR ''0'')"
    by (rule of_char_eq_iff)
  then show ?thesis by simp
qed

lemma first_digit: "atom_matches (Range CHR ''1'' CHR ''9'') c = (is_digit c \<and> c \<noteq> CHR ''0'')"
  using of_char_zero_digit [of c] by (auto simp: is_digit_def)

lemma digit_atom: "atom_matches (Range CHR ''0'' CHR ''9'') = is_digit"
  by (auto simp: is_digit_def fun_eq_iff)

lemma regex_test_plus_digits:
  assumes "lo \<le> hi"
  shows "regex_test [(Lit CHR ''+'', Suc 0, Suc 0), (Range CHR ''1'' CHR ''9'', Suc 0, Suc 0),
                     (Range CHR ''0'' CHR ''9'', lo, hi)] s
     = plus_digits (Suc lo) (Suc hi) s"
proof (cases s)
  case Nil
  then show ?thesis by (simp add: plus_digits_def)
next
  case s: (Cons c ds)
  show ?thesis
  proof (cases ds)
    case Nil
    with s show ?thesis by (simp add: plus_digits_def regex_test_one del: regex_test.simps)
  next
    case (Cons f r)
    with s show ?thesis
      by (auto simp add: regex_test_one regex_test_last [OF assms] plus_digits_def
            first_digit digit_atom simp del: regex_test.simps atom_matches.simps(2))
  qed
qed

lemma phoneRegex_iff: "regex_test phoneRegex s = plus_digits 8 15 s"
  using regex_test_plus_digits [of 7 14 s] by (simp add: phoneRegex_def eval_nat_numeral)

lemma e164Regex_iff: "isValidE164PhoneNumber s = plus_digits 2 15 s"
  using regex_test_plus_digits [of 1 14 s]
  by (simp add: e164Regex_def isValidE164PhoneNumber_def eval_nat_numeral del: regex_test.simps)

lemma start_prefix:
  assumes "request_json request = Inr body" and "\<not> nullish body"
    and "getProp body ''phoneNumber'' = JStr p"
    and "\<not> regex_test phoneRegex p"
  shows "resp_status (fst (POST_booking_start env faults request d)) = 400
       \<and> snd (POST_booking_start env faults request d) = d"
  using assms
  by (simp add: POST_booking_start_def Let_def json_response_def nullish_def)

lemma plus_digits_mono:
  "plus_digits lo hi s \<Longrightarrow> lo' \<le> lo \<Longrightarrow> hi \<le> hi' \<Longrightarrow> plus_digits lo' hi' s"
  by (auto simp: plus_digits_def split: list.splits)

lemma place_call_status:
  "resp_status (fst (place_call env faults mcpRequest bookingId d)) = 500
   \<or> resp_status (fst (place_call env faults mcpRequest bookingId d)) = 200"
  by (simp add: place_call_def start_catch_def json_response_def Let_def
        split: fetch_result.splits sum.splits)

lemma start_other_status:
  assumes "request_json request = Inr body" and "\<not> nullish body"
    and "getProp body ''phoneNumber'' = JStr p" and "p \<noteq> []"
    and "truthy (getProp body ''chatId'')" and "truthy (getProp body ''userId'')"
    and "truthy (getProp body ''restaurantName'')" and "truthy (getProp body ''dateTime'')"
    and "truthy (getProp body ''partySize'')" and "truthy (getProp body ''customerName'')"
    and "getProp body ''bookingType'' \<in> set [JStr ''restaurant'', JStr ''hotel'', JStr ''taxi'']"
    and "regex_test phoneRegex p"
  shows "fst (POST_booking_start env faults request d) \<noteq> invalid_phone_response"
proof -
  let ?partyBad = "case getProp body ''partySize'' of JNum n \<Rightarrow> n < 1 \<or> 100 < n | _ \<Rightarrow> True"
  have bt: "truthy (getProp body ''bookingType'')"
    using assms(11) by auto
  have step: "POST_booking_start env faults request d =
      (if ?partyBad
       then (json_response
               [(''success'', JBool False),
                (''error'', JStr ''Invalid party size''),
                (''details'', JStr ''Party size must be a number between 1 and 100'')]
               400, d)
       else snd (False, POST_booking_start env faults request d))"
    using assms bt
    by (simp add: POST_booking_start_def Let_def nullish_def)
  have inv: "resp_status invalid_phone_response = 400"
    "getProp (resp_body invalid_phone_response) ''error'' = JStr ''Invalid phone number format''"
    by (simp_all add: invalid_phone_response_def json_response_def jsonProps_def)
  show ?thesis
  proof (cases ?partyBad)
    case True
    then have "getProp (resp_body (fst (POST_booking_start env faults request d))) ''error''
        = JStr ''Invalid party size''"
      by (subst step) (simp add: json_response_def jsonProps_def)
    then show ?thesis using inv(2) by auto
  next
    case False
    have rest: "POST_booking_start env faults request d =
      (case find_chat_of_user faults d (getProp body ''chatId'') (getProp body ''userId'') of
         None \<Rightarrow>
           (json_response
              [(''success'', JBool False),
               (''error'', JStr ''Chat not found or access denied'')] 404, d)
       | Some chatExists \<Rightarrow>
           (case insert_error faults of
              Some bookingError \<Rightarrow>
                (start_catch (JsError (''Failed to create booking: ''
                   @ message_of bookingError)), d)
            | None \<Rightarrow> snd (False, POST_booking_start env faults request d)))"
      using assms bt False
      by (simp add: POST_booking_start_def Let_def nullish_def split: option.splits)
    have "resp_status (fst (POST_booking_start env faults request d)) \<noteq> 400"
    proof (cases "find_chat_of_user faults d (getProp body ''chatId'') (getProp body ''userId'')")
      case None
      then show ?thesis by (subst rest) (simp add: json_response_def)
    next
      case (Some c)
      show ?thesis
      proof (cases "insert_error faults")
        case (Some e)
        with \<open>find_chat_of_user faults d (getProp body ''chatId'') (getProp body ''userId'') = Some c\<close>
        show ?thesis by (subst rest) (simp add: start_catch_def json_response_def)
      next
        case None
        have "\<exists>m b d'. POST_booking_start env faults request d = place_call env faults m b d'"
          using assms bt False None
            \<open>find_chat_of_user faults d (getProp body ''chatId'') (getProp body ''userId'') = Some c\<close>
          by (simp add: POST_booking_start_def Let_def nullish_def) blast
        then obtain m b d' where
          "POST_booking_start env faults request d = place_call env faults m b d'" by blast
        then show ?thesis using place_call_status [of env faults m b d'] by auto
      qed
    qed
    then show ?thesis using inv(1) by auto
  qed
qed

lemma start_phone_decides:
  assumes "request_json request = Inr body" and "\<not> nullish body"
    and "getProp body ''phoneNumber'' = JStr p" and "p \<noteq> []"
    and "truthy (getProp body ''chatId'')" and "truthy (getProp body ''userId'')"
    and "truthy (getProp body ''restaurantName'')" and "truthy (getProp body ''dateTime'')"
    and "truthy (getProp body ''partySize'')" and "truthy (getProp body ''customerName'')"
    and "getProp body ''bookingType'' \<in> set [JStr ''restaurant'', JStr ''hotel'', JStr ''taxi'']"
  shows "(fst (POST_booking_start env faults request d) = invalid_phone_response)
         = (\<not> regex_test phoneRegex p)"
proof (cases "regex_test phoneRegex p")
  case False
  then show ?thesis
    using assms
    by (auto simp: POST_booking_start_def Let_def nullish_def invalid_phone_response_def)
next
  case True
  then show ?thesis using start_other_status [OF assms True] by simp
qed

text \<open>
  C4 as stated (every phone number matching \<open>^\+[1-9]\d{1,14}$\<close> passes the phone-number
  validation of a booking-start request) fails on \<open>route.ts\<close>: "+4412" matches the pattern,
  is accepted by \<open>isValidE164PhoneNumber\<close>, and is rejected by the handler with 400
  "Invalid phone number format".
\<close>

theorem start_short_number_counterexample:
  "isValidE164PhoneNumber ''+4412''
   \<and> POST_booking_start (ex_start_env FetchAbort) no_faults
        \<lparr>request_json = Inr (ex_start_body ''+4412'')\<rparr> ex_db
     = (invalid_phone_response, ex_db)"
  by (simp add: isValidE164PhoneNumber_def e164Regex_def POST_booking_start_def Let_def
        nullish_def ex_start_body_def phoneRegex_def invalid_phone_response_def)

text \<open>
  C4, amended: in \<open>route.ts\<close> a request whose phone number is a string not matching
  \<open>^\+[1-9]\d{1,14}$\<close> is answered with 400 and no booking row is created (the store is
  unchanged); \<open>isValidE164PhoneNumber\<close> accepts exactly the strings made of a "+", a first
  digit from 1 to 9 and digits, with 2 to 15 digits in all; and the phone-number check of
  \<open>route.ts\<close>, reached when the required fields are present and the booking type is one
  of the three, rejects with "Invalid phone number format" exactly the strings that are not
  of that form with 8 to 15 digits in all.
\<close>

theorem start_phone_validation:
  "(request_json request = Inr body \<and> \<not> nullish body \<and> getProp body ''phoneNumber'' = JStr p
      \<and> \<not> isValidE164PhoneNumber p
    \<longrightarrow> resp_status (fst (POST_booking_start env faults request d)) = 400
        \<and> snd (POST_booking_start env faults request d) = d)
   \<and> isValidE164PhoneNumber q = plus_digits 2 15 q
   \<and> (request_json request = Inr body \<and> \<not> nullish body \<and> getProp body ''phoneNumber'' = JStr p
      \<and> p \<noteq> [] \<and> truthy (getProp body ''chatId'') \<and> truthy (getProp body ''userId'')
      \<and> truthy (getProp body ''restaurantName'') \<and> truthy (getProp body ''dateTime'')
      \<and> truthy (getProp body ''partySize'') \<and> truthy (getProp body ''customerName'')
      \<and> getProp body ''bookingType'' \<in> set [JStr ''restaurant'', JStr ''hotel'', JStr ''taxi'']
    \<longrightarrow> (fst (POST_booking_start env faults request d) = invalid_phone_response)
        = (\<not> plus_digits 8 15 p))"
proof -
  have a: "request_json request = Inr body \<and> \<not> nullish body
      \<and> getProp body ''phoneNumber'' = JStr p \<and> \<not> isValidE164PhoneNumber p
    \<longrightarrow> resp_status (fst (POST_booking_start env faults request d)) = 400
        \<and> snd (POST_booking_start env faults request d) = d"
  proof
    assume h: "request_json request = Inr body \<and> \<not> nullish body
      \<and> getProp body ''phoneNumber'' = JStr p \<and> \<not> isValidE164PhoneNumber p"
    then have "\<not> plus_digits 2 15 p" by (simp add: e164Regex_iff)
    then have "\<not> plus_digits 8 15 p" using plus_digits_mono [of 8 15 p 2 15] by auto
    then have "\<not> regex_test phoneRegex p" by (simp add: phoneRegex_iff)
    with h show "resp_status (fst (POST_booking_start env faults request d)) = 400
        \<and> snd (POST_booking_start env faults request d) = d"
      using start_prefix [of request body p env faults d] by simp
  qed
  have c: "request_json request = Inr body \<and> \<not> nullish body \<and> getProp body ''phoneNumber'' = JStr p
      \<and> p \<noteq> [] \<and> truthy (getProp body ''chatId'') \<and> truthy (getProp body ''userId'')
      \<and> truthy (getProp body ''restaurantName'') \<and> truthy (getProp body ''dateTime'')
      \<and> truthy (getProp body ''partySize'') \<and> truthy (getProp body ''customerName'')
      \<and> getProp body ''bookingType'' \<in> set [JStr ''restaurant'', JStr ''hotel'', JStr ''taxi'']
    \<longrightarrow> (fst (POST_booking_start env faults request d) = invalid_phone_response)
        = (\<not> plus_digits 8 15 p)"
    using start_phone_decides [of request body p env faults d]
    by (simp only: phoneRegex_iff) blast
  show ?thesis using a c e164Regex_iff [of q] by blast
qed

theorem start_phone_validation_witness:
  "resp_status (fst (POST_booking_start (ex_start_env FetchAbort) no_faults
       \<lparr>request_json = Inr (ex_start_body ''0012125551234'')\<rparr> ex_db)) = 400
   \<and> snd (POST_booking_start (ex_start_env FetchAbort) no_faults
       \<lparr>request_json = Inr (ex_start_body ''0012125551234'')\<rparr> ex_db) = ex_db
   \<and> fst (POST_booking_start (ex_start_env FetchAbort) no_faults
       \<lparr>request_json = Inr (ex_start_body ''+4412'')\<rparr> ex_db) = invalid_phone_response"
proof -
  have a: "resp_status (fst (POST_booking_start (ex_start_env FetchAbort) no_faults
       \<lparr>request_json = Inr (ex_start_body ''0012125551234'')\<rparr> ex_db)) = 400
   \<and> snd (POST_booking_start (ex_start_env FetchAbort) no_faults
       \<lparr>request_json = Inr (ex_start_body ''0012125551234'')\<rparr> ex_db) = ex_db"
    by (rule start_phone_validation
          [where body = "ex_start_body ''0012125551234''" and p = "''0012125551234''",
           THEN conjunct1, THEN mp])
       (simp add: ex_start_body_def nullish_def isValidE164PhoneNumber_def e164Regex_def)
  have "(fst (POST_booking_start (ex_start_env FetchAbort) no_faults
       \<lparr>request_json = Inr (ex_start_body ''+4412'')\<rparr> ex_db) = invalid_phone_response)
     = (\<not> plus_digits 8 15 ''+4412'')"
    by (rule start_phone_validation
          [where body = "ex_start_body ''+4412''" and p = "''+4412''",
           THEN conjunct2, THEN conjunct2, THEN mp])
       (simp add: ex_start_body_def nullish_def)
  then have c: "fst (POST_booking_start (ex_start_env FetchAbort) no_faults
       \<lparr>request_json = Inr (ex_start_body ''+4412'')\<rparr> ex_db) = invalid_phone_response"
    by (simp add: plus_digits_def)
  show ?thesis using a c by blast
qed

section \<open>Properties of the polling loops and of the tool calls\<close>

lemmas send_defs =
  POST_chat_send_def thread_phase_def run_phase_def finish_run_def call_service_def sleep_def
  send_catch_def json_response_def jsonProps_def nullish_def insert_message_def set_thread_id_def
  pending_def maxAttempts_def Let_def

lemmas send_ex_defs =
  scripted_api_def mk_run_def ex_reply_def ex_parse_def ex_stringify_def ex_send_env_def
  ex_send_faults_def ex_send_request_def ex_world_def ex_tool_calls_def ex_db_def ex_booking_def
  ex_details_def

lemma queued_api_simps:
  "runs_create queued_api threadId assistantId s = (Inr (mk_run ''queued'' None), s)"
  "runs_retrieve queued_api threadId runId s = (Inr (mk_run ''queued'' None), s)"
  by (simp_all add: queued_api_def)

lemma pending_queued: "pending (mk_run ''queued'' None)"
  by (simp add: pending_def mk_run_def)

lemma poll_forever_returns_settled:
  assumes "poll_forever api threadId r w = Some res"
  shows "api = queued_api \<longrightarrow> \<not> pending r"
  using assms
proof (rule poll_forever.raw_induct
         [where P = "\<lambda>api threadId r w res. api = queued_api \<longrightarrow> \<not> pending r", rotated])
  fix poll api' threadId' r' w' res'
  assume ih: "\<And>a t q v y. poll a t q v = Some y \<Longrightarrow> a = queued_api \<longrightarrow> \<not> pending q"
    and body: "(if pending r'
      then case call_service (runs_retrieve api' threadId' (run_id r')) (sleep 1000 w') of
             (Inl e, w'') \<Rightarrow> Some (Inl e, w'')
           | (Inr r'', w'') \<Rightarrow> poll api' threadId' r'' w''
      else Some (Inr r', w')) = Some res'"
  show "api' = queued_api \<longrightarrow> \<not> pending r'"
  proof (intro impI notI)
    assume a: "api' = queued_api" and p: "pending r'"
    from body p have "poll queued_api threadId' (mk_run ''queued'' None)
        (snd (call_service (runs_retrieve queued_api threadId' (run_id r')) (sleep 1000 w')))
        = Some res'"
      unfolding a by (simp add: call_service_def queued_api_simps)
    from ih [OF this] show False
      using pending_queued by simp
  qed
qed

lemma poll_forever_queued: "poll_forever queued_api threadId (mk_run ''queued'' None) w = None"
proof (cases "poll_forever queued_api threadId (mk_run ''queued'' None) w")
  case None
  then show ?thesis .
next
  case (Some res)
  from poll_forever_returns_settled [OF this] show ?thesis
    using pending_queued by simp
qed

lemma runAssistant_003_queued:
  "runAssistant_003 queued_api (Some ''asst-1'') stringify threadId w = None"
  by (simp add: runAssistant_003_def call_service_def queued_api_simps poll_forever_queued)

lemma call_service_store: "store (snd (call_service f w)) = store w"
  by (simp add: call_service_def split: prod.splits)

lemma mk_run_simps:
  "run_id (mk_run st tcs) = ''run-1''" "run_status (mk_run st tcs) = st"
  "run_tool_calls (mk_run st tcs) = tcs" "run_last_error (mk_run st tcs) = None"
  by (simp_all add: mk_run_def)

lemma scripted_api_simps:
  "threads_create (scripted_api reply) s = (Inr ''thread-1'', s)"
  "messages_create (scripted_api reply) threadId content s = (None, s)"
  "runs_create (scripted_api reply) threadId assistantId s = next_run s"
  "runs_retrieve (scripted_api reply) threadId runId s = next_run s"
  "runs_submitToolOutputs (scripted_api reply) threadId runId outs s = next_run s"
  "messages_list (scripted_api reply) threadId s = (Inr reply, s)"
  by (simp_all add: scripted_api_def)

lemma poll_run_scripted:
  "pending q \<Longrightarrow> attempts + n \<le> maxAttempts \<Longrightarrow>
   poll_run (scripted_api reply) threadId q attempts
     \<lparr>store = d, service = replicate n q @ rest, clock = c, latency = lat\<rparr>
   = poll_run (scripted_api reply) threadId q (attempts + n)
     \<lparr>store = d, service = rest,
      clock = c + 1000 * n + (\<Sum>k<n. lat (replicate k q @ rest)), latency = lat\<rparr>"
proof (induction n arbitrary: attempts c)
  case 0
  then show ?case by simp
next
  case (Suc n)
  from Suc.prems have a: "attempts < maxAttempts" and b: "(attempts + 1) + n \<le> maxAttempts" by auto
  have "poll_run (scripted_api reply) threadId q attempts
          \<lparr>store = d, service = replicate (Suc n) q @ rest, clock = c, latency = lat\<rparr>
        = poll_run (scripted_api reply) threadId q (attempts + 1)
          \<lparr>store = d, service = replicate n q @ rest,
           clock = c + 1000 + lat (replicate n q @ rest), latency = lat\<rparr>"
    using Suc.prems(1) a
    by (subst poll_run.simps) (simp add: call_service_def sleep_def scripted_api_simps)
  also have "\<dots> = poll_run (scripted_api reply) threadId q ((attempts + 1) + n)
          \<lparr>store = d, service = rest,
           clock = (c + 1000 + lat (replicate n q @ rest)) + 1000 * n
                   + (\<Sum>k<n. lat (replicate k q @ rest)), latency = lat\<rparr>"
    by (rule Suc.IH [OF Suc.prems(1) b])
  finally show ?case by (simp add: algebra_simps)
qed

lemma long_script_first_phase:
  "poll_run (scripted_api reply) threadId (mk_run ''queued'' None) 0
     \<lparr>store = d, service = replicate 58 (mk_run ''queued'' None) @ mk_run ''requires_action'' tcs # rest,
      clock = c, latency = lat\<rparr>
   = (Inr (mk_run ''requires_action'' tcs, 59),
      \<lparr>store = d, service = rest,
       clock = c + 59000 + lat rest
         + (\<Sum>k<58. lat (replicate k (mk_run ''queued'' None) @ mk_run ''requires_action'' tcs # rest)),
       latency = lat\<rparr>)"
proof -
  have "poll_run (scripted_api reply) threadId (mk_run ''queued'' None) 0
     \<lparr>store = d, service = replicate 58 (mk_run ''queued'' None) @ mk_run ''requires_action'' tcs # rest,
      clock = c, latency = lat\<rparr>
    = poll_run (scripted_api reply) threadId (mk_run ''queued'' None) (0 + 58)
     \<lparr>store = d, service = mk_run ''requires_action'' tcs # rest,
      clock = c + 1000 * 58
        + (\<Sum>k<58. lat (replicate k (mk_run ''queued'' None) @ mk_run ''requires_action'' tcs # rest)),
      latency = lat\<rparr>"
    by (rule poll_run_scripted) (simp_all add: pending_queued maxAttempts_def)
  also have "\<dots> = poll_run (scripted_api reply) threadId (mk_run ''requires_action'' tcs) 59
     \<lparr>store = d, service = rest,
      clock = c + 59000 + lat rest
        + (\<Sum>k<58. lat (replicate k (mk_run ''queued'' None) @ mk_run ''requires_action'' tcs # rest)),
      latency = lat\<rparr>"
    by (subst poll_run.simps)
       (simp add: pending_queued maxAttempts_def call_service_def sleep_def scripted_api_simps
          ac_simps)
  also have "\<dots> = (Inr (mk_run ''requires_action'' tcs, 59),
      \<lparr>store = d, service = rest,
       clock = c + 59000 + lat rest
         + (\<Sum>k<58. lat (replicate k (mk_run ''queued'' None) @ mk_run ''requires_action'' tcs # rest)),
       latency = lat\<rparr>)"
    by (subst poll_run.simps) (simp add: pending_def mk_run_simps)
  finally show ?thesis .
qed

lemma long_script_second_phase:
  "poll_run (scripted_api reply) threadId (mk_run ''queued'' None) 0
     \<lparr>store = d, service = replicate 60 (mk_run ''queued'' None), clock = c, latency = lat\<rparr>
   = (Inr (mk_run ''queued'' None, 60),
      \<lparr>store = d, service = [],
       clock = c + 60000 + (\<Sum>k<60. lat (replicate k (mk_run ''queued'' None))), latency = lat\<rparr>)"
proof -
  have "poll_run (scripted_api reply) threadId (mk_run ''queued'' None) 0
     \<lparr>store = d, service = replicate 60 (mk_run ''queued'' None) @ [], clock = c, latency = lat\<rparr>
    = poll_run (scripted_api reply) threadId (mk_run ''queued'' None) (0 + 60)
     \<lparr>store = d, service = [],
      clock = c + 1000 * 60 + (\<Sum>k<60. lat (replicate k (mk_run ''queued'' None) @ [])),
      latency = lat\<rparr>"
    by (rule poll_run_scripted) (simp_all add: pending_queued maxAttempts_def)
  also have "\<dots> = (Inr (mk_run ''queued'' None, 60),
      \<lparr>store = d, service = [],
       clock = c + 60000 + (\<Sum>k<60. lat (replicate k (mk_run ''queued'' None))), latency = lat\<rparr>)"
    by (subst poll_run.simps) (simp add: maxAttempts_def)
  finally show ?thesis by simp
qed

lemma long_script_send:
  "resp_status (fst (POST_chat_send (scripted_api ex_reply) ex_send_env ex_send_faults
      (ex_send_request ''u1'') ((ex_world ex_long_script)\<lparr>latency := lat\<rparr>))) = 200
   \<and> 119000 \<le> clock (snd (POST_chat_send (scripted_api ex_reply) ex_send_env ex_send_faults
      (ex_send_request ''u1'') ((ex_world ex_long_script)\<lparr>latency := lat\<rparr>)))"
  by (simp add: send_defs ex_long_script_def ex_world_def ex_send_request_def ex_send_env_def
        ex_send_faults_def ex_db_def ex_reply_def scripted_api_simps mk_run_simps
        long_script_first_phase long_script_second_phase dispatch_tool_def ex_parse_def
        tool_error_output_def)

lemma long_script_send_instant:
  "clock (snd (POST_chat_send (scripted_api ex_reply) ex_send_env ex_send_faults
      (ex_send_request ''u1'') (ex_world ex_long_script))) = 119000"
  by (simp add: send_defs ex_long_script_def ex_world_def ex_send_request_def ex_send_env_def
        ex_send_faults_def ex_db_def ex_reply_def scripted_api_simps mk_run_simps
        long_script_first_phase long_script_second_phase dispatch_tool_def ex_parse_def
        tool_error_output_def)

lemma poll_deadline_settled:
  "poll_deadline api startTime maxWaitTime threadId r w = (Inr r', w') \<Longrightarrow> \<not> pending r'"
proof (induction api startTime maxWaitTime threadId r w rule: poll_deadline.induct)
  case (1 api startTime maxWaitTime threadId r w)
  show ?case
  proof (cases "pending r")
    case False
    with "1.prems" show ?thesis by (subst (asm) poll_deadline.simps) auto
  next
    case True
    show ?thesis
    proof (cases "maxWaitTime * 1000 < clock w - startTime")
      case t: True
      with True "1.prems" show ?thesis by (subst (asm) poll_deadline.simps) auto
    next
      case f: False
      obtain res w1 where
        c: "call_service (runs_retrieve api threadId (run_id r)) (sleep 1000 w) = (res, w1)"
        by (cases "call_service (runs_retrieve api threadId (run_id r)) (sleep 1000 w)")
      show ?thesis
      proof (cases res)
        case (Inl e)
        with True f c "1.prems" show ?thesis by (subst (asm) poll_deadline.simps) auto
      next
        case (Inr r1)
        from True f c Inr "1.prems"
        have "poll_deadline api startTime maxWaitTime threadId r1 w1 = (Inr r', w')"
          by (subst (asm) poll_deadline.simps) auto
        from "1.IH" [OF True f c [symmetric] Inr this] show ?thesis .
      qed
    qed
  qed
qed

lemma poll_deadline_scripted:
  "pending q \<Longrightarrow> startTime \<le> c \<Longrightarrow> c + 1000 * n \<le> startTime + maxWaitTime * 1000 + 1000 \<Longrightarrow>
   poll_deadline (scripted_api reply) startTime maxWaitTime threadId q
     \<lparr>store = d, service = replicate n q @ rest, clock = c, latency = (\<lambda>s. 0)\<rparr>
   = poll_deadline (scripted_api reply) startTime maxWaitTime threadId q
     \<lparr>store = d, service = rest, clock = c + 1000 * n, latency = (\<lambda>s. 0)\<rparr>"
proof (induction n arbitrary: c)
  case 0
  then show ?case by simp
next
  case (Suc n)
  from Suc.prems have a: "\<not> maxWaitTime * 1000 < c - startTime"
    and b: "startTime \<le> c + 1000" "(c + 1000) + 1000 * n \<le> startTime + maxWaitTime * 1000 + 1000"
    by auto
  have "poll_deadline (scripted_api reply) startTime maxWaitTime threadId q
          \<lparr>store = d, service = replicate (Suc n) q @ rest, clock = c, latency = (\<lambda>s. 0)\<rparr>
        = poll_deadline (scripted_api reply) startTime maxWaitTime threadId q
          \<lparr>store = d, service = replicate n q @ rest, clock = c + 1000, latency = (\<lambda>s. 0)\<rparr>"
    using Suc.prems(1) a
    by (subst poll_deadline.simps) (simp add: call_service_def sleep_def scripted_api_simps)
  also have "\<dots> = poll_deadline (scripted_api reply) startTime maxWaitTime threadId q
          \<lparr>store = d, service = rest, clock = (c + 1000) + 1000 * n, latency = (\<lambda>s. 0)\<rparr>"
    by (rule Suc.IH [OF Suc.prems(1) b])
  finally show ?case by (simp add: algebra_simps)
qed

lemma lib_first_phase:
  "poll_deadline (scripted_api reply) 0 60 threadId (mk_run ''queued'' None)
     \<lparr>store = d, service = replicate 58 (mk_run ''queued'' None) @ mk_run ''requires_action'' tcs # rest,
      clock = 0, latency = (\<lambda>s. 0)\<rparr>
   = (Inr (mk_run ''requires_action'' tcs),
      \<lparr>store = d, service = rest, clock = 59000, latency = (\<lambda>s. 0)\<rparr>)"
proof -
  have "poll_deadline (scripted_api reply) 0 60 threadId (mk_run ''queued'' None)
     \<lparr>store = d, service = replicate 58 (mk_run ''queued'' None) @ mk_run ''requires_action'' tcs # rest,
      clock = 0, latency = (\<lambda>s. 0)\<rparr>
    = poll_deadline (scripted_api reply) 0 60 threadId (mk_run ''queued'' None)
     \<lparr>store = d, service = mk_run ''requires_action'' tcs # rest, clock = 0 + 1000 * 58,
      latency = (\<lambda>s. 0)\<rparr>"
    by (rule poll_deadline_scripted) (simp_all add: pending_queued)
  also have "\<dots> = poll_deadline (scripted_api reply) 0 60 threadId (mk_run ''requires_action'' tcs)
     \<lparr>store = d, service = rest, clock = 59000, latency = (\<lambda>s. 0)\<rparr>"
    by (subst poll_deadline.simps)
       (simp add: pending_queued call_service_def sleep_def scripted_api_simps)
  also have "\<dots> = (Inr (mk_run ''requires_action'' tcs),
      \<lparr>store = d, service = rest, clock = 59000, latency = (\<lambda>s. 0)\<rparr>)"
    by (subst poll_deadline.simps) (simp add: pending_def mk_run_simps)
  finally show ?thesis .
qed

lemma lib_second_phase:
  "poll_deadline (scripted_api reply) 0 60 threadId (mk_run ''queued'' None)
     \<lparr>store = d, service = replicate 60 (mk_run ''queued'' None), clock = 59000, latency = (\<lambda>s. 0)\<rparr>
   = (Inl (JsError ''Assistant run timed out after 60 seconds''),
      \<lparr>store = d, service = replicate 58 (mk_run ''queued'' None), clock = 61000,
       latency = (\<lambda>s. 0)\<rparr>)"
proof -
  have "poll_deadline (scripted_api reply) 0 60 threadId (mk_run ''queued'' None)
     \<lparr>store = d, service = replicate 2 (mk_run ''queued'' None) @ replicate 58 (mk_run ''queued'' None),
      clock = 59000, latency = (\<lambda>s. 0)\<rparr>
    = poll_deadline (scripted_api reply) 0 60 threadId (mk_run ''queued'' None)
     \<lparr>store = d, service = replicate 58 (mk_run ''queued'' None), clock = 59000 + 1000 * 2,
      latency = (\<lambda>s. 0)\<rparr>"
    by (rule poll_deadline_scripted) (simp_all add: pending_queued)
  also have "\<dots> = (Inl (JsError ''Assistant run timed out after 60 seconds''),
      \<lparr>store = d, service = replicate 58 (mk_run ''queued'' None), clock = 61000,
       latency = (\<lambda>s. 0)\<rparr>)"
    by (subst poll_deadline.simps) (simp add: pending_queued show_nat.simps digit_char_def)
  finally show ?thesis
    by (simp only: replicate_add [symmetric]) simp
qed

lemma runAssistant_long_script:
  "runAssistant (scripted_api ex_reply) (Some ''asst-1'') ex_parse ex_stringify
     (Some (\<lambda>name args w. (Inr (JObj []), w))) ''thread-1'' 60 (ex_world ex_long_script)
   = (Inl (JsError ''Failed to run assistant: Assistant run timed out after 60 seconds''),
      \<lparr>store = ex_db, service = replicate 58 (mk_run ''queued'' None), clock = 61000,
       latency = (\<lambda>s. 0)\<rparr>)"
  by (simp add: runAssistant_def runAssistant_try_def call_service_def ex_long_script_def
        ex_world_def scripted_api_simps mk_run_simps lib_first_phase lib_second_phase ex_parse_def)

lemma handleToolCalls_lib_ids:
  "handleToolCalls_lib parse stringify handler toolCalls w = (outs, w')
   \<Longrightarrow> map tool_call_id outs = map tc_id toolCalls"
proof (induction toolCalls arbitrary: w outs w')
  case Nil
  then show ?case by simp
next
  case (Cons toolCall rest)
  show ?case
  proof (cases "parse (tc_arguments toolCall)")
    case (Inl parseError)
    obtain outs1 w1 where r: "handleToolCalls_lib parse stringify handler rest w = (outs1, w1)"
      by (cases "handleToolCalls_lib parse stringify handler rest w")
    from Cons.IH [OF r] Cons.prems Inl r show ?thesis by auto
  next
    case (Inr functionArgs)
    obtain res w1 where h: "handler (tc_name toolCall) functionArgs w = (res, w1)"
      by (cases "handler (tc_name toolCall) functionArgs w")
    obtain outs2 w2 where r: "handleToolCalls_lib parse stringify handler rest w1 = (outs2, w2)"
      by (cases "handleToolCalls_lib parse stringify handler rest w1")
    from Cons.IH [OF r] Cons.prems Inr h r show ?thesis by auto
  qed
qed

lemma dispatch_unknown_tool:
  "functionName \<noteq> ''start_booking_call'' \<Longrightarrow> functionName \<noteq> ''get_booking_status'' \<Longrightarrow>
   dispatch_tool env faults functionName functionArgs chatId userId d
     = (Inr (JObj [(''error'', JStr (''Unknown function: '' @ functionName))]), d)"
  by (simp add: dispatch_tool_def)

text \<open>
  C5 (a tool call whose arguments fail to parse does not abort the run and yields an error
  output for that call only). In the orchestrator \<open>JSON.parse\<close> stands outside the \<open>try\<close>:
  for a batch of two calls, the first with malformed arguments and the second with an
  unknown name, \<open>handleToolCalls\<close> throws, the handler answers 500 with the parser's
  message, and no tool output is submitted (the service is left where the run requiring
  action put it). \<open>handleToolCalls\<close> of \<open>lib/openai.ts\<close> gives one output per call
  (\<open>handleToolCalls_lib_ids\<close>), and an unknown name alone gives an error output
  (\<open>dispatch_unknown_tool\<close>).
\<close>

theorem send_bad_arguments_abort:
  "handleToolCalls ex_send_env ex_send_faults ex_tool_calls (JStr ''c1'') (JStr ''u1'') ex_db
     = (Inl (JsError ''Unexpected end of JSON input''), ex_db)
   \<and> fst (POST_chat_send (scripted_api ex_reply) ex_send_env ex_send_faults (ex_send_request ''u1'')
        (ex_world [mk_run ''requires_action'' (Some ex_tool_calls), mk_run ''completed'' None]))
     = send_catch (JsError ''Unexpected end of JSON input'')
   \<and> service (snd (POST_chat_send (scripted_api ex_reply) ex_send_env ex_send_faults
        (ex_send_request ''u1'')
        (ex_world [mk_run ''requires_action'' (Some ex_tool_calls), mk_run ''completed'' None])))
     = [mk_run ''completed'' None]"
  by (simp add: send_defs send_ex_defs poll_run.simps)

text \<open>
  C8 (for every sequence of non-terminal run statuses the polling ends within the
  documented 60-second budget, and no handler waits without bound). The send-message
  handler gives its budget as \<open>maxAttempts = 60\<close>, "Max 60 seconds", and as
  \<open>maxDuration = 60\<close>, but sets \<open>attempts\<close> back to 0 after the tool outputs. When the
  service answers queued 59 times, then requires action, then queued 61 times, the handler
  waits for 119 one-second timers: with a service that answers at once it returns 119
  seconds after the request, however long the calls of the service take it returns no
  earlier, and its answer is 200 with the latest message of the thread, not an error.
  The earlier \<open>runAssistant\<close> (part 003) has no bound at all: while the run stays queued it
  never returns. \<open>runAssistant\<close> of \<open>lib/openai.ts\<close> measures both loops from one
  \<open>startTime\<close>: on the same statuses it reports the time-out after 61 seconds
  (\<open>runAssistant_long_script\<close>), and it never goes on with a run that is still pending
  (\<open>poll_deadline_settled\<close>).
\<close>

theorem send_polling_overruns_budget:
  "clock (snd (POST_chat_send (scripted_api ex_reply) ex_send_env ex_send_faults
      (ex_send_request ''u1'') (ex_world ex_long_script))) = 119000
   \<and> resp_status (fst (POST_chat_send (scripted_api ex_reply) ex_send_env ex_send_faults
      (ex_send_request ''u1'') ((ex_world ex_long_script)\<lparr>latency := lat\<rparr>))) = 200
   \<and> 119000 \<le> clock (snd (POST_chat_send (scripted_api ex_reply) ex_send_env ex_send_faults
      (ex_send_request ''u1'') ((ex_world ex_long_script)\<lparr>latency := lat\<rparr>)))
   \<and> runAssistant_003 queued_api (Some ''asst-1'') stringify threadId w = None"
  using long_script_send_instant long_script_send [of lat]
    runAssistant_003_queued [of stringify threadId w]
  by simp

section \<open>The user identifier in the send-message handler\<close>

lemma handleToolCalls_user:
  assumes "\<And>args d. handleStartBookingCall env args chatId u1 d
                    = handleStartBookingCall env args chatId u2 d"
  shows "handleToolCalls env faults toolCalls chatId u1 d
         = handleToolCalls env faults toolCalls chatId u2 d"
proof (induction toolCalls arbitrary: d)
  case Nil
  show ?case by simp
next
  case (Cons toolCall rest)
  have "dispatch_tool env faults n a chatId u1 d = dispatch_tool env faults n a chatId u2 d" for n a
    by (simp add: dispatch_tool_def assms)
  then show ?case using Cons.IH by (simp split: sum.splits prod.splits)
qed

lemma run_phase_user:
  assumes "\<And>args d. handleStartBookingCall env args chatId u1 d
                    = handleStartBookingCall env args chatId u2 d"
  shows "run_phase api env faults assistantId threadId chatId u1 w
         = run_phase api env faults assistantId threadId chatId u2 w"
  by (simp add: run_phase_def handleToolCalls_user [OF assms]
        cong: prod.case_cong sum.case_cong if_cong)

lemma POST_chat_send_user:
  assumes "send_json r1 = Inr b1" and "send_json r2 = Inr b2"
    and "\<not> nullish b1" and "\<not> nullish b2"
    and "getProp b1 ''chatId'' = getProp b2 ''chatId''"
    and "getProp b1 ''message'' = getProp b2 ''message''"
    and "truthy (getProp b1 ''userId'')" and "truthy (getProp b2 ''userId'')"
    and "\<And>args d. handleStartBookingCall env args (getProp b1 ''chatId'') (getProp b1 ''userId'') d
                  = handleStartBookingCall env args (getProp b1 ''chatId'') (getProp b2 ''userId'') d"
  shows "POST_chat_send api env faults r1 w = POST_chat_send api env faults r2 w"
proof -
  have h: "handleStartBookingCall env args (getProp b2 ''chatId'') (getProp b1 ''userId'') d
         = handleStartBookingCall env args (getProp b2 ''chatId'') (getProp b2 ''userId'') d"
    for args d
    using assms(9) [of args d] assms(5) by simp
  show ?thesis
    using assms(1-8)
    by (simp add: POST_chat_send_def Let_def run_phase_user [OF h]
          cong: prod.case_cong sum.case_cong option.case_cong if_cong)
qed

lemma handleStartBookingCall_messages:
  assumes "\<And>body d. messages (snd (fetch_booking_start env body d)) = messages d"
  shows "messages (snd (handleStartBookingCall env args chatId userId d)) = messages d"
proof -
  have m: "fetch_booking_start env body d = (res, d') \<Longrightarrow> messages d' = messages d" for body res d'
    using assms [of body d] by simp
  show ?thesis
    by (auto simp: handleStartBookingCall_def Let_def
          split: prod.splits fetch_result.splits sum.splits dest!: m)
qed

lemma handleToolCalls_messages:
  assumes "\<And>body d. messages (snd (fetch_booking_start env body d)) = messages d"
  shows "messages (snd (handleToolCalls env faults toolCalls chatId userId d)) = messages d"
proof (induction toolCalls arbitrary: d)
  case Nil
  show ?case by simp
next
  case (Cons toolCall rest)
  have dm: "messages (snd (dispatch_tool env faults n a chatId userId d)) = messages d" for n a d
    by (simp add: dispatch_tool_def handleStartBookingCall_messages [OF assms])
  show ?case
  proof (cases "parse_arguments env (tc_arguments toolCall)")
    case (Inl e)
    then show ?thesis by simp
  next
    case (Inr functionArgs)
    obtain res d1 where
      h: "dispatch_tool env faults (tc_name toolCall) functionArgs chatId userId d = (res, d1)"
      by (cases "dispatch_tool env faults (tc_name toolCall) functionArgs chatId userId d")
    have m1: "messages d1 = messages d"
      using dm [of "tc_name toolCall" functionArgs d] h by simp
    have "messages (snd (handleToolCalls env faults rest chatId userId d1)) = messages d1"
      by (rule Cons.IH)
    with Inr h m1 show ?thesis
      by (auto split: prod.splits sum.splits)
  qed
qed

lemma call_service_storeD: "call_service f w = (res, w') \<Longrightarrow> store w' = store w"
  using call_service_store [of f w] by simp

lemma poll_run_store: "store (snd (poll_run api threadId r attempts w)) = store w"
proof (induction api threadId r attempts w rule: poll_run.induct)
  case (1 api threadId r attempts w)
  show ?case
  proof (cases "pending r \<and> attempts < maxAttempts")
    case False
    then show ?thesis by (subst poll_run.simps) auto
  next
    case True
    obtain res w' where
      c: "call_service (runs_retrieve api threadId (run_id r)) (sleep 1000 w) = (res, w')"
      by (cases "call_service (runs_retrieve api threadId (run_id r)) (sleep 1000 w)")
    have sw: "store w' = store w"
      using call_service_storeD [OF c] by (simp add: sleep_def)
    show ?thesis
    proof (cases res)
      case (Inl e)
      with True c sw show ?thesis by (subst poll_run.simps) auto
    next
      case (Inr r')
      from "1.IH" [OF True c [symmetric] Inr]
      have "store (snd (poll_run api threadId r' (attempts + 1) w')) = store w'" .
      with True c sw Inr show ?thesis by (subst poll_run.simps) auto
    qed
  qed
qed

lemma poll_run_storeD: "poll_run api threadId r attempts w = (res, w') \<Longrightarrow> store w' = store w"
  using poll_run_store [of api threadId r attempts w] by simp

lemma thread_phase_messages:
  "messages (store (snd (thread_phase api faults chatRow chatId message w))) = messages (store w)"
  by (auto simp: thread_phase_def set_thread_id_def split: prod.splits sum.splits option.splits
        dest!: call_service_storeD)

lemma run_phase_messages:
  assumes "\<And>body d. messages (snd (fetch_booking_start env body d)) = messages d"
  shows "messages (store (snd (run_phase api env faults assistantId threadId chatId userId w)))
         = messages (store w)"
proof -
  have m: "handleToolCalls env faults tcs chatId userId d = (res, d') \<Longrightarrow> messages d' = messages d"
    for tcs d res d'
    using handleToolCalls_messages [OF assms, of faults tcs chatId userId d] by simp
  show ?thesis
    by (auto simp: run_phase_def split: prod.splits sum.splits option.splits
          dest!: call_service_storeD poll_run_storeD m)
qed

lemma finish_run_messages:
  "prefix (messages (store w)) (messages (store (snd (finish_run api faults threadId chatId r w))))"
  by (auto simp: finish_run_def insert_message_def
        split: prod.splits sum.splits option.splits list.splits content_part.splits
        dest!: call_service_storeD)

lemma POST_chat_send_user_row:
  assumes "send_json request = Inr body" and "\<not> nullish body"
    and "truthy (getProp body ''chatId'')" and "truthy (getProp body ''userId'')"
    and "truthy (getProp body ''message'')"
    and "present (OPENAI_ASSISTANT_ID env)" and "user_insert_error faults = None"
    and "\<And>b d. messages (snd (fetch_booking_start env b d)) = messages d"
  shows "prefix (messages (store w)
                 @ [\<lparr>m_chat_id = toStr (getProp body ''chatId''), m_role = ''user'',
                     m_content = toStr (getProp body ''message''), m_metadata = JObj []\<rparr>])
           (messages (store (snd (POST_chat_send api env faults request w))))"
proof -
  let ?row = "\<lparr>m_chat_id = toStr (getProp body ''chatId''), m_role = ''user'',
                m_content = toStr (getProp body ''message''), m_metadata = JObj []\<rparr>"
  let ?w1 = "w\<lparr>store := insert_message ?row (store w)\<rparr>"
  have w1: "messages (store ?w1) = messages (store w) @ [?row]"
    by (simp add: insert_message_def)
  have tp: "thread_phase api faults chatRow c m ?w1 = (res, w2)
            \<Longrightarrow> messages (store w2) = messages (store w) @ [?row]" for chatRow c m res w2
    using thread_phase_messages [of api faults chatRow c m ?w1] w1 by simp
  have rp: "run_phase api env faults a t c u w2 = (res, w3)
            \<Longrightarrow> messages (store w3) = messages (store w2)" for a t c u w2 res w3
    using run_phase_messages [OF assms(8), of api faults a t c u w2] by simp
  have fr: "messages (store w3) = messages (store w) @ [?row]
            \<Longrightarrow> prefix (messages (store w) @ [?row])
                  (messages (store (snd (finish_run api faults t c r w3))))" for w3 t c r
    using finish_run_messages [of w3 api faults t c r] by simp
  show ?thesis
    using assms(1-7) w1
    by (auto simp: POST_chat_send_def Let_def
          split: prod.splits sum.splits option.splits
          dest!: tp rp intro!: fr)
qed

lemma handleStartBookingCall_chats:
  assumes "\<And>body d. chats (snd (fetch_booking_start env body d)) = chats d"
  shows "chats (snd (handleStartBookingCall env args chatId userId d)) = chats d"
proof -
  have m: "fetch_booking_start env body d = (res, d') \<Longrightarrow> chats d' = chats d" for body res d'
    using assms [of body d] by simp
  show ?thesis
    by (auto simp: handleStartBookingCall_def Let_def
          split: prod.splits fetch_result.splits sum.splits dest!: m)
qed

lemma handleToolCalls_chats:
  assumes "\<And>body d. chats (snd (fetch_booking_start env body d)) = chats d"
  shows "chats (snd (handleToolCalls env faults toolCalls chatId userId d)) = chats d"
proof (induction toolCalls arbitrary: d)
  case Nil
  show ?case by simp
next
  case (Cons toolCall rest)
  have dm: "chats (snd (dispatch_tool env faults n a chatId userId d)) = chats d" for n a d
    by (simp add: dispatch_tool_def handleStartBookingCall_chats [OF assms])
  show ?case
  proof (cases "parse_arguments env (tc_arguments toolCall)")
    case (Inl e)
    then show ?thesis by simp
  next
    case (Inr functionArgs)
    obtain res d1 where
      h: "dispatch_tool env faults (tc_name toolCall) functionArgs chatId userId d = (res, d1)"
      by (cases "dispatch_tool env faults (tc_name toolCall) functionArgs chatId userId d")
    have m1: "chats d1 = chats d"
      using dm [of "tc_name toolCall" functionArgs d] h by simp
    have "chats (snd (handleToolCalls env faults rest chatId userId d1)) = chats d1"
      by (rule Cons.IH)
    with Inr h m1 show ?thesis
      by (auto split: prod.splits sum.splits)
  qed
qed

lemma run_phase_chats:
  assumes "\<And>body d. chats (snd (fetch_booking_start env body d)) = chats d"
  shows "chats (store (snd (run_phase api env faults assistantId threadId chatId userId w)))
         = chats (store w)"
proof -
  have m: "handleToolCalls env faults tcs chatId userId d = (res, d') \<Longrightarrow> chats d' = chats d"
    for tcs d res d'
    using handleToolCalls_chats [OF assms, of faults tcs chatId userId d] by simp
  show ?thesis
    by (auto simp: run_phase_def split: prod.splits sum.splits option.splits
          dest!: call_service_storeD poll_run_storeD m)
qed

lemma finish_run_chats:
  "chats (store (snd (finish_run api faults threadId chatId r w))) = chats (store w)"
  by (auto simp: finish_run_def insert_message_def
        split: prod.splits sum.splits option.splits list.splits content_part.splits
        dest!: call_service_storeD)

lemma POST_chat_send_chats:
  assumes "send_json request = Inr body" and "\<not> nullish body"
    and "truthy (getProp body ''chatId'')" and "truthy (getProp body ''userId'')"
    and "truthy (getProp body ''message'')"
    and "\<And>b d. chats (snd (fetch_booking_start env b d)) = chats d"
  shows "chats (store (snd (POST_chat_send api env faults request w))) =
     (if \<not> present (OPENAI_ASSISTANT_ID env) \<or> user_insert_error faults \<noteq> None
         \<or> chat_select_error faults \<noteq> None
      then chats (store w)
      else
        case single (filter (\<lambda>c. c_id c = toStr (getProp body ''chatId'')) (chats (store w))) of
          None \<Rightarrow> chats (store w)
        | Some chatRow \<Rightarrow>
            chats (store (snd (thread_phase api faults chatRow (getProp body ''chatId'')
              (getProp body ''message'')
              (w\<lparr>store := insert_message
                   \<lparr>m_chat_id = toStr (getProp body ''chatId''), m_role = ''user'',
                    m_content = toStr (getProp body ''message''), m_metadata = JObj []\<rparr>
                   (store w)\<rparr>)))))"
proof -
  have rp: "run_phase api env faults a t c u w2 = (res, w3)
            \<Longrightarrow> chats (store w3) = chats (store w2)" for a t c u w2 res w3
    using run_phase_chats [OF assms(6), of api faults a t c u w2] by simp
  show ?thesis
    using assms(1-5)
    by (auto simp: POST_chat_send_def Let_def finish_run_chats insert_message_def
          split: prod.splits sum.splits option.splits
          dest!: rp)
qed

text \<open>
  C10: the send-message handler reads \<open>userId\<close> only to test that it is present and to
  pass it to \<open>handleToolCalls\<close>; it never compares it with the owner of the chat. Two
  requests with the same \<open>chatId\<close> and \<open>message\<close> and any two non-empty user identifiers
  get the same answer and leave the same world (store, service and clock), on every store
  and whoever owns the chat, as soon as the booking tool handler answers alike for the two
  identifiers; and whatever the tool handlers answer, the user row persisted is the row
  (\<open>chat_id\<close>, role "user", content) built from \<open>chatId\<close> and \<open>message\<close> alone, and the
  chats table (the thread looked up or created for the chat) ends the same for the two
  requests, as long as the booking endpoint leaves the messages and chats tables alone.
\<close>

theorem send_userId_only_reaches_tools:
  "(send_json r1 = Inr b1 \<and> send_json r2 = Inr b2 \<and> \<not> nullish b1 \<and> \<not> nullish b2
      \<and> getProp b1 ''chatId'' = getProp b2 ''chatId''
      \<and> getProp b1 ''message'' = getProp b2 ''message''
      \<and> truthy (getProp b1 ''userId'') \<and> truthy (getProp b2 ''userId'')
      \<and> (\<forall>args d.
            handleStartBookingCall env args (getProp b1 ''chatId'') (getProp b1 ''userId'') d
            = handleStartBookingCall env args (getProp b1 ''chatId'') (getProp b2 ''userId'') d)
    \<longrightarrow> POST_chat_send api env faults r1 w = POST_chat_send api env faults r2 w)
   \<and> (send_json r1 = Inr b1 \<and> \<not> nullish b1
      \<and> truthy (getProp b1 ''chatId'') \<and> truthy (getProp b1 ''userId'')
      \<and> truthy (getProp b1 ''message'')
      \<and> present (OPENAI_ASSISTANT_ID env) \<and> user_insert_error faults = None
      \<and> (\<forall>b d. messages (snd (fetch_booking_start env b d)) = messages d)
    \<longrightarrow> prefix (messages (store w)
                 @ [\<lparr>m_chat_id = toStr (getProp b1 ''chatId''), m_role = ''user'',
                     m_content = toStr (getProp b1 ''message''), m_metadata = JObj []\<rparr>])
          (messages (store (snd (POST_chat_send api env faults r1 w)))))
   \<and> (send_json r1 = Inr b1 \<and> send_json r2 = Inr b2 \<and> \<not> nullish b1 \<and> \<not> nullish b2
      \<and> getProp b1 ''chatId'' = getProp b2 ''chatId''
      \<and> getProp b1 ''message'' = getProp b2 ''message''
      \<and> truthy (getProp b1 ''chatId'') \<and> truthy (getProp b1 ''message'')
      \<and> truthy (getProp b1 ''userId'') \<and> truthy (getProp b2 ''userId'')
      \<and> (\<forall>b d. chats (snd (fetch_booking_start env b d)) = chats d)
    \<longrightarrow> chats (store (snd (POST_chat_send api env faults r1 w)))
        = chats (store (snd (POST_chat_send api env faults r2 w))))"
proof (intro conjI impI)
  assume h: "send_json r1 = Inr b1 \<and> send_json r2 = Inr b2 \<and> \<not> nullish b1 \<and> \<not> nullish b2
      \<and> getProp b1 ''chatId'' = getProp b2 ''chatId''
      \<and> getProp b1 ''message'' = getProp b2 ''message''
      \<and> truthy (getProp b1 ''userId'') \<and> truthy (getProp b2 ''userId'')
      \<and> (\<forall>args d.
            handleStartBookingCall env args (getProp b1 ''chatId'') (getProp b1 ''userId'') d
            = handleStartBookingCall env args (getProp b1 ''chatId'') (getProp b2 ''userId'') d)"
  then have t: "\<And>args d.
       handleStartBookingCall env args (getProp b1 ''chatId'') (getProp b1 ''userId'') d
       = handleStartBookingCall env args (getProp b1 ''chatId'') (getProp b2 ''userId'') d"
    by blast
  from h show "POST_chat_send api env faults r1 w = POST_chat_send api env faults r2 w"
    by (intro POST_chat_send_user [where ?b1.0 = b1 and ?b2.0 = b2] t) simp_all
next
  assume h: "send_json r1 = Inr b1 \<and> \<not> nullish b1
      \<and> truthy (getProp b1 ''chatId'') \<and> truthy (getProp b1 ''userId'')
      \<and> truthy (getProp b1 ''message'')
      \<and> present (OPENAI_ASSISTANT_ID env) \<and> user_insert_error faults = None
      \<and> (\<forall>b d. messages (snd (fetch_booking_start env b d)) = messages d)"
  then have m: "\<And>b d. messages (snd (fetch_booking_start env b d)) = messages d"
    by blast
  from h show "prefix (messages (store w)
                 @ [\<lparr>m_chat_id = toStr (getProp b1 ''chatId''), m_role = ''user'',
                     m_content = toStr (getProp b1 ''message''), m_metadata = JObj []\<rparr>])
          (messages (store (snd (POST_chat_send api env faults r1 w))))"
    by (intro POST_chat_send_user_row m) simp_all
next
  assume h: "send_json r1 = Inr b1 \<and> send_json r2 = Inr b2 \<and> \<not> nullish b1 \<and> \<not> nullish b2
      \<and> getProp b1 ''chatId'' = getProp b2 ''chatId''
      \<and> getProp b1 ''message'' = getProp b2 ''message''
      \<and> truthy (getProp b1 ''chatId'') \<and> truthy (getProp b1 ''message'')
      \<and> truthy (getProp b1 ''userId'') \<and> truthy (getProp b2 ''userId'')
      \<and> (\<forall>b d. chats (snd (fetch_booking_start env b d)) = chats d)"
  then have c: "\<And>b d. chats (snd (fetch_booking_start env b d)) = chats d"
    by blast
  from h have 1: "send_json r1 = Inr b1" "\<not> nullish b1" "truthy (getProp b1 ''chatId'')"
    "truthy (getProp b1 ''userId'')" "truthy (getProp b1 ''message'')"
    by blast+
  from h have 2: "send_json r2 = Inr b2" "\<not> nullish b2" "truthy (getProp b2 ''chatId'')"
    "truthy (getProp b2 ''userId'')" "truthy (getProp b2 ''message'')"
    by metis+
  from h have e: "getProp b2 ''chatId'' = getProp b1 ''chatId''"
    "getProp b2 ''message'' = getProp b1 ''message''"
    by metis+
  show "chats (store (snd (POST_chat_send api env faults r1 w)))
        = chats (store (snd (POST_chat_send api env faults r2 w)))"
    unfolding POST_chat_send_chats [OF 1 c] POST_chat_send_chats [OF 2 c] e ..
qed

theorem send_userId_only_reaches_tools_witness:
  "POST_chat_send (scripted_api ex_reply) ex_send_env ex_send_faults (ex_send_request ''u1'')
       (ex_world ex_booking_script)
     = POST_chat_send (scripted_api ex_reply) ex_send_env ex_send_faults
         (ex_send_request ''mallory'') (ex_world ex_booking_script)
   \<and> prefix [\<lparr>m_chat_id = ''c1'', m_role = ''user'', m_content = ''Book a table'',
               m_metadata = JObj []\<rparr>]
       (messages (store (snd (POST_chat_send (scripted_api ex_reply) ex_send_env ex_send_faults
          (ex_send_request ''mallory'') (ex_world ex_booking_script)))))
   \<and> chats (store (snd (POST_chat_send (scripted_api ex_reply) ex_send_env ex_send_faults
          (ex_send_request ''u1'') (ex_world ex_booking_script))))
     = chats (store (snd (POST_chat_send (scripted_api ex_reply) ex_send_env ex_send_faults
          (ex_send_request ''mallory'') (ex_world ex_booking_script))))"
proof -
  have a: "POST_chat_send (scripted_api ex_reply) ex_send_env ex_send_faults (ex_send_request ''u1'')
       (ex_world ex_booking_script)
     = POST_chat_send (scripted_api ex_reply) ex_send_env ex_send_faults
         (ex_send_request ''mallory'') (ex_world ex_booking_script)"
    by (rule send_userId_only_reaches_tools
          [where ?b1.0 = "JObj [(''chatId'', JStr ''c1''), (''userId'', JStr ''u1''),
                               (''message'', JStr ''Book a table'')]"
             and ?b2.0 = "JObj [(''chatId'', JStr ''c1''), (''userId'', JStr ''mallory''),
                               (''message'', JStr ''Book a table'')]",
           THEN conjunct1, THEN mp])
       (simp add: ex_send_request_def nullish_def handleStartBookingCall_def ex_send_env_def)
  have "prefix (messages (store (ex_world ex_booking_script))
                 @ [\<lparr>m_chat_id = toStr (getProp (JObj [(''chatId'', JStr ''c1''),
                        (''userId'', JStr ''mallory''), (''message'', JStr ''Book a table'')]) ''chatId''),
                     m_role = ''user'',
                     m_content = toStr (getProp (JObj [(''chatId'', JStr ''c1''),
                        (''userId'', JStr ''mallory''), (''message'', JStr ''Book a table'')]) ''message''),
                     m_metadata = JObj []\<rparr>])
       (messages (store (snd (POST_chat_send (scripted_api ex_reply) ex_send_env ex_send_faults
          (ex_send_request ''mallory'') (ex_world ex_booking_script)))))"
    by (rule send_userId_only_reaches_tools
          [where ?b1.0 = "JObj [(''chatId'', JStr ''c1''), (''userId'', JStr ''mallory''),
                               (''message'', JStr ''Book a table'')]",
           THEN conjunct2, THEN conjunct1, THEN mp])
       (simp add: ex_send_request_def nullish_def ex_send_env_def ex_send_faults_def)
  then have b: "prefix [\<lparr>m_chat_id = ''c1'', m_role = ''user'', m_content = ''Book a table'',
               m_metadata = JObj []\<rparr>]
       (messages (store (snd (POST_chat_send (scripted_api ex_reply) ex_send_env ex_send_faults
          (ex_send_request ''mallory'') (ex_world ex_booking_script)))))"
    by (simp add: ex_world_def ex_db_def)
  have c: "chats (store (snd (POST_chat_send (scripted_api ex_reply) ex_send_env ex_send_faults
          (ex_send_request ''u1'') (ex_world ex_booking_script))))
     = chats (store (snd (POST_chat_send (scripted_api ex_reply) ex_send_env ex_send_faults
          (ex_send_request ''mallory'') (ex_world ex_booking_script))))"
    by (rule send_userId_only_reaches_tools
          [where ?b1.0 = "JObj [(''chatId'', JStr ''c1''), (''userId'', JStr ''u1''),
                               (''message'', JStr ''Book a table'')]"
             and ?b2.0 = "JObj [(''chatId'', JStr ''c1''), (''userId'', JStr ''mallory''),
                               (''message'', JStr ''Book a table'')]",
           THEN conjunct2, THEN conjunct2, THEN mp])
       (simp add: ex_send_request_def nullish_def ex_send_env_def)
  show ?thesis using a b c by blast
qed

end
